theory Spec2Isabelle
  imports Main
begin

text \<open>
  A model of the React component \<open>App\<close> of the AyurGraph front end: the payload
  builders \<open>showQueryGraph\<close> and \<open>fetchFullKG\<close>, the graph-rendering effect,
  \<open>processResponseText\<close>, \<open>formatResults\<close> and \<open>send\<close>, as they stand in the
  current revision of the component (\<open>src/unnamed/part_001\<close>, the code before the
  commented-out copies).  Of the earlier revision (\<open>src/unnamed/part_000\<close>) the model
  holds the two places where it treats empty payloads and node sizes.  State is passed
  explicitly, exceptions are values of a sum type, and the clock, the random number
  generator, the network and the rendering library are parameters.
\<close>

section \<open>JavaScript values and strings\<close>

text \<open>
  A JavaScript string is a sequence of UTF-16 code units; a code unit is modelled as a
  natural number (no operation of the program computes with code units, so their bound
  65536 plays no role).  \<open>js\<close> turns an ASCII literal of the source into such a string.
\<close>

type_synonym js_string = "nat list"

definition js :: "string \<Rightarrow> js_string" where
  "js s = map of_char s"

text \<open>
  The values an \<open>id\<close>, \<open>from\<close>, \<open>to\<close>, \<open>label\<close> or \<open>group\<close> field of the parsed
  JSON can hold: a missing field reads as \<open>undefined\<close>; JSON supplies \<open>null\<close>, booleans,
  numbers (integers here) and strings.  Strict equality \<open>===\<close> and the key equality of a
  \<open>Map\<close> agree on these values and are the equality of the datatype.  An object or an
  array in such a field is outside the model, and so is an element of \<open>nodes\<close> or
  \<open>edges\<close> that is not an object.
\<close>

datatype jsval = JUndefined | JNull | JBool bool | JNum int | JStr js_string

text \<open>ToBoolean: \<open>undefined\<close>, \<open>null\<close>, \<open>false\<close>, \<open>0\<close> and \<open>""\<close> are falsy.\<close>

fun truthy :: "jsval \<Rightarrow> bool" where
  "truthy JUndefined = False"
| "truthy JNull = False"
| "truthy (JBool b) = b"
| "truthy (JNum n) = (n \<noteq> 0)"
| "truthy (JStr s) = (s \<noteq> [])"

text \<open>\<open>a && b\<close> and \<open>a || b\<close> return one of their operands; \<open>a !== b\<close> is a boolean.\<close>

definition js_and :: "jsval \<Rightarrow> jsval \<Rightarrow> jsval" where
  "js_and a b = (if truthy a then b else a)"

definition js_or :: "jsval \<Rightarrow> jsval \<Rightarrow> jsval" where
  "js_or a b = (if truthy a then a else b)"

definition strict_neq :: "jsval \<Rightarrow> jsval \<Rightarrow> jsval" where
  "strict_neq a b = JBool (a \<noteq> b)"

subsection \<open>Decimal rendering of array indices and of \<open>Date.now()\<close>\<close>

text \<open>
  A template literal renders a non-negative integer below \<open>10^21\<close> in decimal, most
  significant digit first; code unit 48 is the digit \<open>0\<close>.
\<close>

function show_nat :: "nat \<Rightarrow> js_string" where
  "show_nat n = (if n < 10 then [48 + n] else show_nat (n div 10) @ [48 + n mod 10])"
  by pat_completeness auto
termination
  by (relation "measure (\<lambda>n. n)") auto

declare show_nat.simps [simp del]

text \<open>Reading a decimal numeral back; used only to state that rendering loses nothing.\<close>

definition read_nat :: "js_string \<Rightarrow> nat" where
  "read_nat ds = foldl (\<lambda>a d. 10 * a + (d - 48)) 0 ds"

section \<open>Graph payloads\<close>

text \<open>
  A node \<open>{id, label, group}\<close> and an edge \<open>{id, from, to, label}\<close> of a
  \<open>{nodes, edges}\<close> payload.  The object spread \<open>...node\<close> / \<open>...edge\<close> of the source is
  a record update: every field not overwritten is kept.
\<close>

record node =
  nid :: jsval
  nlabel :: jsval
  ngroup :: jsval

record edge =
  eid :: jsval
  efrom :: jsval
  eto :: jsval
  elabel :: jsval

text \<open>
  \<open>nodes\<close> or \<open>edges\<close> of a payload received from the server is \<open>None\<close> when the field
  is missing, \<open>null\<close>, or not an array.  \<open>showQueryGraph\<close> also reads \<open>edges?.length\<close> of
  the field as it arrived: for an \<open>edges\<close> that is not an array, \<open>edges_length_positive\<close>
  says whether \<open>edges?.length > 0\<close> holds (it does for a non-empty string and for an
  object with a positive \<open>length\<close>, not for a missing field or \<open>null\<close>); for an array
  the length of the array is read and the field plays no role.
\<close>

record graph_data =
  gnodes :: "node list option"
  gedges :: "edge list option"
  edges_length_positive :: bool

text \<open>The processed payload \<open>{ nodes: processedNodes, edges: processedEdges }\<close>.\<close>

record payload =
  nodes :: "node list"
  edges :: "edge list"

subsection \<open>The environment: \<open>Date.now()\<close> and \<open>Math.random()\<close>\<close>

text \<open>
  Both calls are inputs of the program.  Within one invocation of a payload builder they
  are made once per node and then once per surviving edge; \<open>Date_now env k\<close> is the
  clock reading of the \<open>k\<close>-th such call (milliseconds since the epoch) and
  \<open>Math_random env k\<close> the text that the template literal produces for the \<open>k\<close>-th
  random number.
\<close>

record env =
  Date_now :: "nat \<Rightarrow> nat"
  Math_random :: "nat \<Rightarrow> js_string"

text \<open>
  \<open>`node_${index}_${Date.now()}_${Math.random()}`\<close> and
  \<open>`edge_${index}_${Date.now()}_${Math.random()}`\<close>; \<open>k\<close> is the number of the call.
\<close>

definition unique_id :: "string \<Rightarrow> env \<Rightarrow> nat \<Rightarrow> nat \<Rightarrow> js_string" where
  "unique_id prefix env index k =
     js prefix @ show_nat index @ js ''_'' @ show_nat (Date_now env k) @ js ''_'' @ Math_random env k"

subsection \<open>Nodes: fresh ids and the id map\<close>

text \<open>
  \<open>nodes.map((node, index) => { const uniqueId = ...; nodeIdMap.set(node.id, uniqueId);
  return { ...node, id: uniqueId } })\<close>: the callback runs on the nodes in order,
  starting at \<open>index\<close>, and updates the \<open>Map\<close> as it goes (a later node with the same
  original id overwrites the entry).
\<close>

type_synonym node_id_map = "jsval \<rightharpoonup> js_string"

fun map_nodes :: "env \<Rightarrow> nat \<Rightarrow> node list \<Rightarrow> node_id_map \<Rightarrow> node list \<times> node_id_map" where
  "map_nodes env index [] nodeIdMap = ([], nodeIdMap)"
| "map_nodes env index (node # rest) nodeIdMap =
     (let uniqueId = unique_id ''node_'' env index index;
          (processed, nodeIdMap') = map_nodes env (Suc index) rest (nodeIdMap(nid node \<mapsto> uniqueId))
      in (node\<lparr>nid := JStr uniqueId\<rparr> # processed, nodeIdMap'))"

definition processedNodes :: "env \<Rightarrow> node list \<Rightarrow> node list" where
  "processedNodes env ns = fst (map_nodes env 0 ns Map.empty)"

definition nodeIdMap_of :: "env \<Rightarrow> node list \<Rightarrow> node_id_map" where
  "nodeIdMap_of env ns = snd (map_nodes env 0 ns Map.empty)"

subsection \<open>Edges: validity filter and endpoint remapping\<close>

text \<open>\<open>nodeIdMap.get(x) || x\<close>: a generated id is a non-empty string, hence truthy.\<close>

definition remap :: "node_id_map \<Rightarrow> jsval \<Rightarrow> jsval" where
  "remap nodeIdMap x =
     js_or (case nodeIdMap x of None \<Rightarrow> JUndefined | Some u \<Rightarrow> JStr u) x"

text \<open>
  The \<open>.map((edge, index) => ({ ...edge, id: ..., from: ..., to: ... }))\<close> of
  \<open>showQueryGraph\<close> and \<open>fetchFullKG\<close>; \<open>k0\<close> is the number of calls of the clock made
  before (one per node).
\<close>

fun map_edges :: "env \<Rightarrow> node_id_map \<Rightarrow> nat \<Rightarrow> nat \<Rightarrow> edge list \<Rightarrow> edge list" where
  "map_edges env nodeIdMap k0 index [] = []"
| "map_edges env nodeIdMap k0 index (edge # rest) =
     edge\<lparr>eid := JStr (unique_id ''edge_'' env index (k0 + index)),
          efrom := remap nodeIdMap (efrom edge),
          eto := remap nodeIdMap (eto edge)\<rparr>
     # map_edges env nodeIdMap k0 (Suc index) rest"

text \<open>
  The filter callback of \<open>showQueryGraph\<close>:
  \<open>const isValid = edge.from && edge.to && edge.from !== edge.to;
  if (!isValid) { console.warn(...); return false; } return true;\<close>
\<close>

definition showQueryGraph_isValid :: "edge \<Rightarrow> jsval" where
  "showQueryGraph_isValid edge =
     js_and (js_and (efrom edge) (eto edge)) (strict_neq (efrom edge) (eto edge))"

definition showQueryGraph_filter :: "edge \<Rightarrow> bool" where
  "showQueryGraph_filter edge = (if \<not> truthy (showQueryGraph_isValid edge) then False else True)"

text \<open>
  The filter callback of \<open>fetchFullKG\<close> returns \<open>isValid\<close> itself, which
  \<open>Array.prototype.filter\<close> converts with ToBoolean.
\<close>

definition fetchFullKG_isValid :: "edge \<Rightarrow> jsval" where
  "fetchFullKG_isValid edge =
     js_and (js_and (efrom edge) (eto edge)) (strict_neq (efrom edge) (eto edge))"

definition fetchFullKG_filter :: "edge \<Rightarrow> bool" where
  "fetchFullKG_filter edge = truthy (fetchFullKG_isValid edge)"

text \<open>\<open>Array.isArray(edges) ? edges : []\<close>\<close>

definition edges_or_empty :: "edge list option \<Rightarrow> edge list" where
  "edges_or_empty es = (case es of Some xs \<Rightarrow> xs | None \<Rightarrow> [])"

text \<open>The payload \<open>graphDataCopy\<close> that \<open>showQueryGraph\<close> builds from a non-empty node array.\<close>

definition showQueryGraph_payload :: "env \<Rightarrow> node list \<Rightarrow> edge list option \<Rightarrow> payload" where
  "showQueryGraph_payload env ns es =
     (let (processed, nodeIdMap) = map_nodes env 0 ns Map.empty;
          validEdges = map_edges env nodeIdMap (length ns) 0
                         (filter showQueryGraph_filter (edges_or_empty es))
      in \<lparr>nodes = processed, edges = validEdges\<rparr>)"

text \<open>The payload \<open>processedData\<close> that \<open>fetchFullKG\<close> builds from a non-empty node array.\<close>

definition fetchFullKG_payload :: "env \<Rightarrow> node list \<Rightarrow> edge list option \<Rightarrow> payload" where
  "fetchFullKG_payload env ns es =
     (let (processed, nodeIdMap) = map_nodes env 0 ns Map.empty;
          processedEdges = map_edges env nodeIdMap (length ns) 0
                             (filter fetchFullKG_filter (edges_or_empty es))
      in \<lparr>nodes = processed, edges = processedEdges\<rparr>)"

section \<open>The chat response\<close>

text \<open>
  The body of \<open>POST /api/chat\<close>, typed as the interface documents it:
  \<open>{ response, confidence, kg_data?: { entities, relationships, visualization }, error?, detail? }\<close>.
  An optional field is \<open>None\<close> when it is missing.  \<open>relationships\<close> is the object's
  entries in the order \<open>Object.entries\<close> enumerates them; the value of an entry is \<open>None\<close>
  when it is not an array.
\<close>

record entity_details =
  description :: "js_string list option"

record entity =
  ent_label :: js_string
  ent_type :: js_string
  details :: "entity_details option"

record rel_item =
  fromLabel :: js_string
  toLabel :: js_string
  relation :: js_string

record kg_bundle =
  entities :: "entity list option"
  relationships :: "(js_string \<times> rel_item list option) list option"
  visualization :: "graph_data option"

record chat_response =
  response :: "js_string option"
  confidence :: "js_string option"
  kg_data :: "kg_bundle option"
  error :: "js_string option"
  detail :: "js_string option"

section \<open>Application state\<close>

text \<open>
  A chat message \<open>{ from, text, type, kg_data? }\<close>.  The \<open>timestamp: new Date()\<close> of
  every message is left out: no function below reads it.
\<close>

record message =
  mfrom :: js_string
  mtext :: js_string
  mtype :: js_string
  mkg_data :: "kg_bundle option"

text \<open>
  The React state of \<open>App\<close> that the functions below read or write.  A state setter called
  with an updater (\<open>setMessages(m => [...m, msg])\<close>) is the update of the field.
\<close>

record app_state =
  messages :: "message list"
  input :: js_string
  loading :: bool
  isTyping :: bool
  showGraph :: bool
  graphType :: "js_string option"
  currentGraphData :: "payload option"
  fullGraphData :: "payload option"
  graphLoading :: bool

definition bot_message :: "js_string \<Rightarrow> js_string \<Rightarrow> message" where
  "bot_message txt ty = \<lparr>mfrom = js ''bot'', mtext = txt, mtype = ty, mkg_data = None\<rparr>"

definition add_message :: "message \<Rightarrow> app_state \<Rightarrow> app_state" where
  "add_message msg st = st\<lparr>messages := messages st @ [msg]\<rparr>"

text \<open>The warning sign followed by a variation selector (U+26A0 U+FE0F) and a space.\<close>

definition warning_sign :: js_string where
  "warning_sign = [9888, 65039, 32]"

section \<open>\<open>showQueryGraph\<close>\<close>

text \<open>
  \<open>kgData\<close> is the \<open>kg_data\<close> of the message whose button was pressed.  Destroying the
  previous \<open>vis-network\<close> instance does not touch the state.
\<close>

definition no_valid_edges_warning :: message where
  "no_valid_edges_warning =
     bot_message (warning_sign @ js ''No valid edges found for the knowledge graph. Displaying nodes only. Check server logs for edge data issues.'')
       (js ''warning'')"

definition showQueryGraph :: "env \<Rightarrow> kg_bundle option \<Rightarrow> app_state \<Rightarrow> app_state" where
  "showQueryGraph env kgData st =
     (case (case kgData of None \<Rightarrow> None | Some kg \<Rightarrow> visualization kg) of
        None \<Rightarrow>
          add_message (bot_message (warning_sign @ js ''No visualization data available for this query.'')
                         (js ''error'')) st
      | Some vis \<Rightarrow>
          (case gnodes vis of
             None \<Rightarrow>
               add_message (bot_message (warning_sign @ js ''Invalid knowledge graph data structure.'')
                              (js ''error'')) st
           | Some ns \<Rightarrow>
               if length ns = 0 then
                 add_message (bot_message (warning_sign @ js ''No nodes available for visualization.'')
                                (js ''error'')) st
               else
                 let graphDataCopy = showQueryGraph_payload env ns (gedges vis);
                     st1 = (if (case gedges vis of
                                  Some es \<Rightarrow> length es > 0
                                | None \<Rightarrow> edges_length_positive vis)
                               \<and> length (edges graphDataCopy) = 0
                            then add_message no_valid_edges_warning st else st)
                 in st1\<lparr>currentGraphData := Some graphDataCopy,
                        graphType := Some (js ''query''),
                        showGraph := True\<rparr>))"

section \<open>\<open>fetchFullKG\<close>\<close>

text \<open>
  The outcome of \<open>await fetch(...)\<close> followed by \<open>await res.json()\<close>: the promise is
  rejected with an exception \<open>e\<close> (\<open>Rejected e.message\<close>), or a response arrives with
  \<open>res.ok\<close>, \<open>res.status\<close> and a parsed body.
\<close>

datatype 'a fetch_result = Rejected js_string | Responded bool nat 'a

text \<open>The body of \<open>GET /api/kg/full\<close>: \<open>{ nodes, edges }\<close> or \<open>{ error }\<close>.\<close>

record full_kg =
  fk_error :: "js_string option"
  fk_nodes :: "node list option"
  fk_edges :: "edge list option"

text \<open>
  An optional string field under ToBoolean: missing and \<open>""\<close> are falsy; \<open>truthy_text\<close>
  yields the string when it is truthy.
\<close>

definition truthy_text :: "js_string option \<Rightarrow> js_string option" where
  "truthy_text s = (case s of None \<Rightarrow> None | Some t \<Rightarrow> if t = [] then None else Some t)"

definition present :: "js_string option \<Rightarrow> bool" where
  "present s = (truthy_text s \<noteq> None)"

text \<open>
  The \<open>try\<close> block of \<open>fetchFullKG\<close>: \<open>Inl m\<close> is an exception with \<open>e.message = m\<close>,
  \<open>Inr p\<close> the \<open>processedData\<close> reached without one.
\<close>

definition fetchFullKG_try :: "env \<Rightarrow> full_kg fetch_result \<Rightarrow> js_string + payload" where
  "fetchFullKG_try env res =
     (case res of
        Rejected m \<Rightarrow> Inl m
      | Responded ok status data \<Rightarrow>
          if \<not> ok then Inl (js ''Server error: '' @ show_nat status)
          else (case truthy_text (fk_error data) of
                  Some m \<Rightarrow> Inl m
                | None \<Rightarrow>
                    (case fk_nodes data of
                       None \<Rightarrow> Inl (js ''Invalid knowledge graph data structure from server: nodes missing or not an array'')
                     | Some ns \<Rightarrow>
                         if length ns = 0 then Inl (js ''Received empty knowledge graph nodes'')
                         else Inr (fetchFullKG_payload env ns (fk_edges data)))))"

definition fetchFullKG_failed :: "js_string \<Rightarrow> js_string \<Rightarrow> message" where
  "fetchFullKG_failed API_URL m =
     bot_message (warning_sign @ js ''Failed to load full Knowledge Graph: '' @ m
                  @ js ''. Please check the server at '' @ API_URL @ js '' and try again.'')
       (js ''error'')"

definition fetchFullKG :: "env \<Rightarrow> js_string \<Rightarrow> full_kg fetch_result \<Rightarrow> app_state \<Rightarrow> app_state" where
  "fetchFullKG env API_URL res st =
     (let st1 = st\<lparr>graphLoading := True\<rparr>;
          st2 = (case fetchFullKG_try env res of
                   Inr processedData \<Rightarrow>
                     st1\<lparr>fullGraphData := Some processedData,
                         currentGraphData := Some processedData,
                         graphType := Some (js ''full''),
                         showGraph := True\<rparr>
                 | Inl m \<Rightarrow> add_message (fetchFullKG_failed API_URL m) st1)
      in st2\<lparr>graphLoading := False\<rparr>)"

subsection \<open>The earlier revision of \<open>fetchFullKG\<close>\<close>

text \<open>
  The earlier revision of the component stores the body as it arrives.  Its check is
  \<open>if (!data.nodes.length || !data.edges.length) throw new Error("Received empty
  knowledge graph data")\<close>; the model covers bodies whose \<open>nodes\<close> and \<open>edges\<close> are
  arrays (on a missing field the property access itself throws).
\<close>

record full_kg_v0 =
  fk0_error :: "js_string option"
  fk0_nodes :: "node list"
  fk0_edges :: "edge list"

definition fetchFullKG_v0_try :: "full_kg_v0 fetch_result \<Rightarrow> js_string + full_kg_v0" where
  "fetchFullKG_v0_try res =
     (case res of
        Rejected m \<Rightarrow> Inl m
      | Responded ok status data \<Rightarrow>
          if \<not> ok then Inl (js ''Server error: '' @ show_nat status)
          else (case truthy_text (fk0_error data) of
                  Some m \<Rightarrow> Inl m
                | None \<Rightarrow>
                    if length (fk0_nodes data) = 0 \<or> length (fk0_edges data) = 0
                    then Inl (js ''Received empty knowledge graph data'')
                    else Inr data))"

section \<open>The graph-rendering effect\<close>

text \<open>
  What the effect hands to \<open>vis-network\<close>: a node gains \<open>font\<close> and \<open>size\<close>, an edge
  gains the constant \<open>arrows\<close>, \<open>color\<close>, \<open>font\<close> and \<open>width\<close> (\<open>scaleFactor: 0.75\<close> is
  kept in hundredths).
\<close>

record rnode = node +
  font_size :: nat
  font_color :: js_string
  size :: nat

record redge = edge +
  arrows_to_enabled :: bool
  arrows_to_type :: js_string
  arrows_to_scaleFactor_percent :: nat
  color_color :: js_string
  color_highlight :: js_string
  efont_size :: nat
  efont_align :: js_string
  efont_color :: js_string
  width :: nat

record render_payload =
  visNodes :: "rnode list"
  visEdges :: "redge list"

text \<open>\<open>size: node.group === 'herbs' ? 25 : 20\<close>\<close>

definition node_size :: "jsval \<Rightarrow> nat" where
  "node_size g = (if g = JStr (js ''herbs'') then 25 else 20)"

text \<open>
  \<open>nodes.map((node, index) => { ...; nodeIdMap.set(node.id, uniqueId);
  return { ...node, id: uniqueId, font: { size: 12, color: '#1e293b' },
  size: node.group === 'herbs' ? 25 : 20 } })\<close>
\<close>

fun effect_map_nodes :: "env \<Rightarrow> nat \<Rightarrow> node list \<Rightarrow> node_id_map \<Rightarrow> rnode list \<times> node_id_map" where
  "effect_map_nodes env index [] nodeIdMap = ([], nodeIdMap)"
| "effect_map_nodes env index (node # rest) nodeIdMap =
     (let uniqueId = unique_id ''node_'' env index index;
          (processed, nodeIdMap') =
             effect_map_nodes env (Suc index) rest (nodeIdMap(nid node \<mapsto> uniqueId))
      in (node.extend (node\<lparr>nid := JStr uniqueId\<rparr>)
            (rnode.fields 12 (js ''#1e293b'') (node_size (ngroup node))) # processed,
          nodeIdMap'))"

text \<open>
  The text of an id inside a template literal (\<open>${edge.from}\<close>); the id is truthy at
  that point.
\<close>

definition show_int :: "int \<Rightarrow> js_string" where
  "show_int i = (if i < 0 then 45 # show_nat (nat (- i)) else show_nat (nat i))"

fun to_text :: "jsval \<Rightarrow> js_string" where
  "to_text JUndefined = js ''undefined''"
| "to_text JNull = js ''null''"
| "to_text (JBool b) = (if b then js ''true'' else js ''false'')"
| "to_text (JNum n) = show_int n"
| "to_text (JStr s) = s"

definition self_loop_warning :: "jsval \<Rightarrow> message" where
  "self_loop_warning x =
     bot_message (warning_sign @ js ''Detected self-loop in knowledge graph for node '' @ [39]
                  @ to_text x @ [39] @ js ''. Check server logs for data issues.'')
       (js ''warning'')"

text \<open>
  The filter callback of the effect: an edge with a falsy endpoint is dropped silently
  (\<open>console.warn\<close> only); a self-loop is dropped and a warning message is added to the
  chat.  The callback is run on the edges in order, threading the state.
\<close>

fun effect_filter :: "edge list \<Rightarrow> app_state \<Rightarrow> edge list \<times> app_state" where
  "effect_filter [] st = ([], st)"
| "effect_filter (edge # rest) st =
     (let isValid = js_and (efrom edge) (eto edge) in
      if \<not> truthy isValid then effect_filter rest st
      else if efrom edge = eto edge then
        effect_filter rest (add_message (self_loop_warning (efrom edge)) st)
      else (let (kept, st') = effect_filter rest st in (edge # kept, st')))"

fun effect_map_edges :: "env \<Rightarrow> node_id_map \<Rightarrow> nat \<Rightarrow> nat \<Rightarrow> edge list \<Rightarrow> redge list" where
  "effect_map_edges env nodeIdMap k0 index [] = []"
| "effect_map_edges env nodeIdMap k0 index (edge # rest) =
     edge.extend
       (edge\<lparr>eid := JStr (unique_id ''edge_'' env index (k0 + index)),
             efrom := remap nodeIdMap (efrom edge),
             eto := remap nodeIdMap (eto edge)\<rparr>)
       (redge.fields True (js ''arrow'') 75 (js ''#64748b'') (js ''#3b82f6'')
          10 (js ''middle'') (js ''#1e293b'') 2)
     # effect_map_edges env nodeIdMap k0 (Suc index) rest"

text \<open>
  The payload construction inside the \<open>try\<close> block, up to the call of the library:
  processed nodes, processed edges, and the warning when edges were given and none
  survived.  \<open>edges\<close> comes from \<open>currentGraphData\<close>, which only \<open>showQueryGraph\<close> and
  \<open>fetchFullKG\<close> set, always to a pair of arrays; so \<open>Array.isArray(edges)\<close> holds and
  the check \<open>!nodes || !Array.isArray(nodes)\<close> cannot fail.
\<close>

definition effect_build :: "env \<Rightarrow> payload \<Rightarrow> app_state \<Rightarrow> render_payload \<times> app_state" where
  "effect_build env cgd st =
     (let (processedNodes, nodeIdMap) = effect_map_nodes env 0 (nodes cgd) Map.empty;
          (kept, st1) = effect_filter (edges cgd) st;
          processedEdges = effect_map_edges env nodeIdMap (length (nodes cgd)) 0 kept;
          st2 = (if length (edges cgd) > 0 \<and> length processedEdges = 0
                 then add_message no_valid_edges_warning st1 else st1)
      in (\<lparr>visNodes = processedNodes, visEdges = processedEdges\<rparr>, st2))"

text \<open>
  The effect.  \<open>container\<close> says whether \<open>containerRef.current\<close> is set; \<open>vis\<close> stands for
  the library calls that follow the construction (\<open>DataSet.add\<close>, \<open>new VisNetwork\<close>,
  \<open>stabilize\<close>): \<open>vis p = Some m\<close> when they throw an exception with message \<open>m\<close> on the
  payload \<open>p\<close>.  The result is the new state and the payload handed to the library, if
  the effect gets that far.
\<close>

definition graph_effect ::
  "env \<Rightarrow> bool \<Rightarrow> (render_payload \<Rightarrow> js_string option) \<Rightarrow> app_state \<Rightarrow> app_state \<times> render_payload option" where
  "graph_effect env container vis st =
     (case currentGraphData st of
        None \<Rightarrow> (st, None)
      | Some cgd \<Rightarrow>
          if \<not> (showGraph st \<and> container) then (st, None)
          else if length (nodes cgd) = 0 then
            ((add_message (bot_message (warning_sign @ js ''No nodes available for the knowledge graph. Please try another query or check the server logs.'')
                             (js ''error'')) st)\<lparr>showGraph := False\<rparr>, None)
          else
            (let (p, st1) = effect_build env cgd st in
             case vis p of
               None \<Rightarrow> (st1, Some p)
             | Some m \<Rightarrow>
                 ((add_message (bot_message (warning_sign @ js ''Error rendering graph: '' @ m
                                   @ js ''. Try refreshing or checking the server logs.'')
                                  (js ''error'')) st1)\<lparr>showGraph := False\<rparr>, Some p)))"

subsection \<open>The earlier revision of the effect\<close>

text \<open>
  The earlier revision renders the payload as it arrived:
  \<open>if (!nodes.length || !edges.length) { setMessages(... type: 'error'); setShowGraph(false); return }\<close>
  and then \<open>nodes.map(node => ({ ...node, font: { size: 12, color: '#1e293b' },
  size: node.group === 'herbs' ? 25 : 20 }))\<close>.  \<open>Inl\<close> is the error message it shows.
\<close>

definition visNodes_v0 :: "node list \<Rightarrow> rnode list" where
  "visNodes_v0 ns =
     map (\<lambda>node. node.extend node (rnode.fields 12 (js ''#1e293b'') (node_size (ngroup node)))) ns"

definition graph_effect_v0_check :: "node list \<Rightarrow> edge list \<Rightarrow> message + rnode list" where
  "graph_effect_v0_check ns es =
     (if length ns = 0 \<or> length es = 0 then
        Inl (bot_message (warning_sign @ js ''No data available for the knowledge graph. Please try another query or check the server logs.'')
               (js ''error''))
      else Inr (visNodes_v0 ns))"

section \<open>\<open>processResponseText\<close>\<close>

text \<open>
  Three \<open>String.prototype.replace\<close> calls with global regular expressions.  The dot of a
  regular expression matches every code unit but the line terminators LF, CR, U+2028 and
  U+2029; code unit 42 is the asterisk.
\<close>

definition is_line_terminator :: "nat \<Rightarrow> bool" where
  "is_line_terminator c = (c = 10 \<or> c = 13 \<or> c = 8232 \<or> c = 8233)"

text \<open>
  The tail \<open>(.*?)\*\*\<close> of the first expression, tried at the start of the argument: the
  lazy group grows one code unit at a time until two asterisks follow; the result is the
  group and the text after the match.
\<close>

fun close2 :: "js_string \<Rightarrow> (js_string \<times> js_string) option" where
  "close2 [] = None"
| "close2 [c] = None"
| "close2 (c # d # rest) =
     (if c = 42 \<and> d = 42 then Some ([], rest)
      else if is_line_terminator c then None
      else map_option (\<lambda>(content, r). (c # content, r)) (close2 (d # rest)))"

text \<open>\<open>/\*\*(.*?)\*\*/\<close> tried at the start of the argument.\<close>

fun match2 :: "js_string \<Rightarrow> (js_string \<times> js_string) option" where
  "match2 (c # d # rest) = (if c = 42 \<and> d = 42 then close2 rest else None)"
| "match2 _ = None"

text \<open>The tail \<open>(.*?)\*\<close> of the second expression, and \<open>/\*(.*?)\*/\<close> itself.\<close>

fun close1 :: "js_string \<Rightarrow> (js_string \<times> js_string) option" where
  "close1 [] = None"
| "close1 (c # rest) =
     (if c = 42 then Some ([], rest)
      else if is_line_terminator c then None
      else map_option (\<lambda>(content, r). (c # content, r)) (close1 rest))"

fun match1 :: "js_string \<Rightarrow> (js_string \<times> js_string) option" where
  "match1 (c # rest) = (if c = 42 then close1 rest else None)"
| "match1 [] = None"

text \<open>
  \<open>.replace(/.../g, '<b>$1</b>')\<close>: the leftmost match is replaced and the search goes
  on behind it; where no match starts, the code unit is copied.
\<close>

function replace_bold2 :: "js_string \<Rightarrow> js_string" where
  "replace_bold2 [] = []"
| "replace_bold2 (c # cs) =
     (case match2 (c # cs) of
        Some (content, rest) \<Rightarrow> js ''<b>'' @ content @ js ''</b>'' @ replace_bold2 rest
      | None \<Rightarrow> c # replace_bold2 cs)"
  by pat_completeness auto
termination
proof (relation "measure length")
  have close2_shorter: "length r \<le> length t" if "close2 t = Some (content, r)" for t content r
    using that by (induction t arbitrary: content rule: close2.induct) (auto split: if_splits)
  fix c cs x content rest
  assume "match2 (c # cs) = Some x" and "(content, rest) = x"
  then have m: "match2 (c # cs) = Some (content, rest)" by simp
  then obtain d t where "cs = d # t" and "close2 t = Some (content, rest)"
    by (cases cs) (auto split: if_splits)
  then show "(rest, c # cs) \<in> measure length"
    using close2_shorter [of t content rest] by simp
qed auto

function replace_bold1 :: "js_string \<Rightarrow> js_string" where
  "replace_bold1 [] = []"
| "replace_bold1 (c # cs) =
     (case match1 (c # cs) of
        Some (content, rest) \<Rightarrow> js ''<b>'' @ content @ js ''</b>'' @ replace_bold1 rest
      | None \<Rightarrow> c # replace_bold1 cs)"
  by pat_completeness auto
termination
proof (relation "measure length")
  have close1_shorter: "length r \<le> length t" if "close1 t = Some (content, r)" for t content r
    using that by (induction t arbitrary: content) (auto split: if_splits)
  fix c cs x content rest
  assume "match1 (c # cs) = Some x" and "(content, rest) = x"
  then have "close1 cs = Some (content, rest)"
    by (auto split: if_splits)
  then show "(rest, c # cs) \<in> measure length"
    using close1_shorter [of cs content rest] by simp
qed auto

text \<open>\<open>.replace(/\*/g, '')\<close>\<close>

definition remove_asterisks :: "js_string \<Rightarrow> js_string" where
  "remove_asterisks text = filter (\<lambda>c. c \<noteq> 42) text"

definition processResponseText :: "js_string \<Rightarrow> js_string" where
  "processResponseText text = remove_asterisks (replace_bold1 (replace_bold2 text))"

section \<open>\<open>formatResults\<close>\<close>

text \<open>\<open>a || b\<close> on an optional string and a literal.\<close>

definition or_text :: "js_string option \<Rightarrow> js_string \<Rightarrow> js_string" where
  "or_text a b = (case truthy_text a of Some t \<Rightarrow> t | None \<Rightarrow> b)"

text \<open>\<open>entity.details?.description?.[0]\<close>\<close>

definition first_description :: "entity \<Rightarrow> js_string option" where
  "first_description entity =
     (case details entity of
        None \<Rightarrow> None
      | Some d \<Rightarrow> (case description d of None \<Rightarrow> None | Some [] \<Rightarrow> None | Some (x # _) \<Rightarrow> Some x))"

text \<open>\<open>`\n- ${entity.label} (${entity.type}): ${description}`\<close>\<close>

definition entity_line :: "entity \<Rightarrow> js_string" where
  "entity_line entity =
     (let description = or_text (first_description entity) (js ''No description available'')
      in [10] @ js ''- '' @ ent_label entity @ js '' ('' @ ent_type entity @ js ''): '' @ description)"

text \<open>
  \<open>String.prototype.trim\<close> removes white space and line terminators at both ends.
\<close>

definition is_white_space :: "nat \<Rightarrow> bool" where
  "is_white_space c =
     (c \<in> {9, 10, 11, 12, 13, 32, 160, 5760, 8232, 8233, 8239, 8287, 12288, 65279}
      \<or> (8192 \<le> c \<and> c \<le> 8202))"

definition trim :: "js_string \<Rightarrow> js_string" where
  "trim s = rev (dropWhile is_white_space (rev (dropWhile is_white_space s)))"

text \<open>\<open>key.replace(/_/g, ' ').replace(/([A-Z])/g, ' $1').trim()\<close>\<close>

definition cleanKey :: "js_string \<Rightarrow> js_string" where
  "cleanKey key =
     trim (concat (map (\<lambda>c. if 65 \<le> c \<and> c \<le> 90 then [32, c] else [c])
                     (map (\<lambda>c. if c = 95 then 32 else c) key)))"

text \<open>\<open>Array.prototype.join\<close>\<close>

fun join :: "js_string \<Rightarrow> js_string list \<Rightarrow> js_string" where
  "join sep [] = []"
| "join sep [x] = x"
| "join sep (x # y # ys) = x @ sep @ join sep (y # ys)"

text \<open>\<open>`${item.fromLabel} -> ${item.toLabel} (${item.relation})`\<close>\<close>

definition item_text :: "rel_item \<Rightarrow> js_string" where
  "item_text item = fromLabel item @ js '' -> '' @ toLabel item @ js '' ('' @ relation item @ js '')''"

text \<open>The callback of \<open>Object.entries(data.kg_data.relationships).forEach\<close>.\<close>

definition relationship_line :: "js_string \<Rightarrow> js_string \<times> rel_item list option \<Rightarrow> js_string" where
  "relationship_line responseText entry =
     (case snd entry of
        None \<Rightarrow> responseText
      | Some items \<Rightarrow>
          if length items > 0 then
            responseText @ [10] @ js ''- '' @ cleanKey (fst entry) @ js '': ''
              @ join (js '', '') (map item_text (take 5 items))
          else responseText)"

definition has_entities :: "kg_bundle \<Rightarrow> bool" where
  "has_entities kg = (case entities kg of None \<Rightarrow> False | Some es \<Rightarrow> length es > 0)"

definition has_relationships :: "kg_bundle \<Rightarrow> bool" where
  "has_relationships kg = (case relationships kg of None \<Rightarrow> False | Some rs \<Rightarrow> length rs > 0)"

text \<open>The heading: two line feeds, the books emoji (U+1F4DA, a surrogate pair), the text.\<close>

definition sources_heading :: js_string where
  "sources_heading = [10, 10, 55357, 56538] @ js '' Sources from Knowledge Graph:''"

text \<open>
  The part that \<open>formatResults\<close> appends to \<open>responseText\<close> when \<open>data.kg_data\<close> holds
  entities or relationships.
\<close>

definition kg_sources :: "kg_bundle \<Rightarrow> js_string \<Rightarrow> js_string" where
  "kg_sources kg responseText =
     (let r1 = responseText @ sources_heading;
          r2 = (if has_entities kg then
                  foldl (\<lambda>acc entity. acc @ entity_line entity)
                    (r1 @ [10] @ js ''Entities Found:'')
                    (take 5 (case entities kg of Some es \<Rightarrow> es | None \<Rightarrow> []))
                else r1);
          r3 = (if has_relationships kg then
                  foldl relationship_line (r2 @ [10] @ js ''Relationships:'')
                    (case relationships kg of Some rs \<Rightarrow> rs | None \<Rightarrow> [])
                else r2)
      in r3)"

text \<open>The cross mark (U+274C) opens the error text.\<close>

definition formatResults :: "chat_response \<Rightarrow> js_string" where
  "formatResults data =
     (if present (error data) then
        [10060] @ js '' Query Error'' @ [10, 10]
        @ or_text (detail data) (or_text (error data) [])
        @ [10, 10] @ js ''Try rephrasing your question or ask about specific herbs like turmeric, ashwagandha, or neem.''
      else
        let responseText = processResponseText (or_text (response data) (js ''No response available.''))
        in (case kg_data data of
              None \<Rightarrow> responseText
            | Some kg \<Rightarrow>
                if has_entities kg \<or> has_relationships kg then kg_sources kg responseText
                else responseText))"

section \<open>\<open>send\<close>\<close>

text \<open>
  The \<open>try\<close> block of \<open>send\<close>: \<open>Inl m\<close> is an exception with \<open>e.message = m\<close>, \<open>Inr msg\<close>
  the bot message added without one.  The debugging block calls \<open>.map\<close> on
  \<open>visualization.nodes\<close> and \<open>visualization.edges\<close>, which throws a \<open>TypeError\<close> when one
  of them is not an array; \<open>type_error\<close> is the message the JavaScript engine gives it.
\<close>

definition send_try :: "js_string \<Rightarrow> chat_response fetch_result \<Rightarrow> js_string + message" where
  "send_try type_error res =
     (case res of
        Rejected m \<Rightarrow> Inl m
      | Responded ok status data \<Rightarrow>
          if \<not> ok then Inl (js ''Server error: '' @ show_nat status)
          else (case truthy_text (error data) of
                  Some m \<Rightarrow> Inl m
                | None \<Rightarrow>
                    if (case kg_data data of
                          None \<Rightarrow> False
                        | Some kg \<Rightarrow> (case visualization kg of
                                        None \<Rightarrow> False
                                      | Some vis \<Rightarrow> gnodes vis = None \<or> gedges vis = None))
                    then Inl type_error
                    else Inr \<lparr>mfrom = js ''bot'', mtext = formatResults data,
                              mtype = (if confidence data = Some (js ''high'')
                                       then js ''results'' else js ''no-results''),
                              mkg_data = kg_data data\<rparr>))"

text \<open>The plug emoji (U+1F50C) opens the text of the \<open>catch\<close> block.\<close>

definition connection_issue :: "js_string \<Rightarrow> js_string \<Rightarrow> message" where
  "connection_issue API_URL m =
     bot_message ([55357, 56588] @ js '' Connection Issue'' @ [10, 10]
        @ js ''I'' @ [39] @ js ''m having trouble connecting to the knowledge base: '' @ m @ [10, 10]
        @ js ''Please check if the server is running at '' @ API_URL @ js '' and try again.'')
       (js ''error'')"

text \<open>
  \<open>send\<close>: \<open>res\<close> is the outcome of the request, made only when the input is not blank
  and no request is pending.
\<close>

definition send :: "js_string \<Rightarrow> js_string \<Rightarrow> chat_response fetch_result \<Rightarrow> app_state \<Rightarrow> app_state" where
  "send API_URL type_error res st =
     (if trim (input st) = [] \<or> loading st then st
      else
        let userMsg = \<lparr>mfrom = js ''user'', mtext = trim (input st), mtype = js ''user'', mkg_data = None\<rparr>;
            st1 = (add_message userMsg st)\<lparr>input := [], loading := True, isTyping := True, showGraph := False\<rparr>;
            st2 = (case send_try type_error res of
                     Inr msg \<Rightarrow> add_message msg st1
                   | Inl m \<Rightarrow> add_message (connection_issue API_URL m) st1)
        in st2\<lparr>loading := False, isTyping := False\<rparr>)"

section \<open>Example inputs\<close>

text \<open>
  A clock that stays within one millisecond and a sequence of random numbers
  \<open>0.5, 0.7, 0.9, 0.11, ...\<close>; two nodes; an edge between two given endpoints.
\<close>

definition example_env :: env where
  "example_env = \<lparr>Date_now = (\<lambda>k. 1700000000000), Math_random = (\<lambda>k. js ''0.'' @ show_nat (2 * k + 5))\<rparr>"

definition node_a :: node where
  "node_a = \<lparr>nid = JStr (js ''a''), nlabel = JStr (js ''Ashwagandha''), ngroup = JStr (js ''herbs'')\<rparr>"

definition node_b :: node where
  "node_b = \<lparr>nid = JStr (js ''b''), nlabel = JStr (js ''Stress''), ngroup = JStr (js ''conditions'')\<rparr>"

definition edge_of :: "jsval \<Rightarrow> jsval \<Rightarrow> edge" where
  "edge_of a b = \<lparr>eid = JUndefined, efrom = a, eto = b, elabel = JStr (js ''treats'')\<rparr>"

definition example_env_again :: env where
  "example_env_again =
     \<lparr>Date_now = (\<lambda>k. 1700000000000), Math_random = (\<lambda>k. if k = 0 then js ''0.5'' else js ''0.25'')\<rparr>"

definition example_env_later :: env where
  "example_env_later = \<lparr>Date_now = (\<lambda>k. 1700000000001), Math_random = (\<lambda>k. js ''0.'' @ show_nat (2 * k + 5))\<rparr>"

text \<open>A state of the application with an empty chat and no graph shown.\<close>

definition example_state :: app_state where
  "example_state =
     \<lparr>messages = [], input = [], loading = False, isTyping = False, showGraph = False,
      graphType = None, currentGraphData = None, fullGraphData = None, graphLoading = False\<rparr>"

definition example_response_v0 :: "full_kg_v0 fetch_result" where
  "example_response_v0 = Responded True 200 \<lparr>fk0_error = None, fk0_nodes = [node_a, node_b], fk0_edges = []\<rparr>"

text \<open>A self-loop and an edge whose \<open>from\<close> is the empty string: no edge survives.\<close>

definition example_bad_edges :: "edge list" where
  "example_bad_edges = [edge_of (JStr (js ''a'')) (JStr (js ''a'')), edge_of (JStr []) (JStr (js ''b''))]"

definition example_shown_state :: app_state where
  "example_shown_state =
     example_state\<lparr>currentGraphData := Some \<lparr>nodes = [node_a, node_b], edges = example_bad_edges\<rparr>,
                   showGraph := True\<rparr>"


definition example_high_without_kg :: chat_response where
  "example_high_without_kg =
     \<lparr>response = Some (js ''Tulsi may help.''), confidence = Some (js ''high''),
      kg_data = None, error = None, detail = None\<rparr>"

definition example_error_response :: chat_response where
  "example_error_response =
     \<lparr>response = Some (js ''Tulsi may help.''), confidence = Some (js ''high''),
      kg_data = None, error = Some (js ''Bad query''), detail = Some (js ''query is empty'')\<rparr>"




section \<open>Decimal rendering is injective and made of digits\<close>

lemma show_nat_digits: "d \<in> set (show_nat n) \<Longrightarrow> 48 \<le> d \<and> d \<le> 57"
proof (induction n rule: show_nat.induct)
  case (1 n)
  show ?case
  proof (cases "n < 10")
    case True
    with "1.prems" show ?thesis by (simp add: show_nat.simps [of n])
  next
    case False
    with "1.prems" have "d \<in> set (show_nat (n div 10)) \<or> d = 48 + n mod 10"
      by (auto simp add: show_nat.simps [of n])
    then show ?thesis
    proof
      assume "d \<in> set (show_nat (n div 10))"
      with False "1.IH" show ?thesis by simp
    next
      assume "d = 48 + n mod 10"
      moreover have "n mod 10 < 10" by simp
      ultimately show ?thesis by linarith
    qed
  qed
qed

lemma read_nat_snoc: "read_nat (ds @ [d]) = 10 * read_nat ds + (d - 48)"
  by (simp add: read_nat_def)

lemma read_show_nat: "read_nat (show_nat n) = n"
proof (induction n rule: show_nat.induct)
  case (1 n)
  show ?case
  proof (cases "n < 10")
    case True
    then show ?thesis by (simp add: show_nat.simps [of n] read_nat_def)
  next
    case False
    with "1.IH" have "read_nat (show_nat (n div 10)) = n div 10" by simp
    with False show ?thesis by (simp add: show_nat.simps [of n] read_nat_snoc)
  qed
qed

lemma show_nat_inj: "show_nat n = show_nat m \<Longrightarrow> n = m"
  by (metis read_show_nat)

section \<open>Generated ids\<close>

lemma show_nat_lt10: "n < 10 \<Longrightarrow> show_nat n = [48 + n]"
  by (simp add: show_nat.simps)

lemma show_nat_ge10: "\<not> n < 10 \<Longrightarrow> show_nat n = show_nat (n div 10) @ [48 + n mod 10]"
  by (subst show_nat.simps) simp

lemma show_nat_no_underscore: "95 \<notin> set (show_nat n)"
  using show_nat_digits [of 95 n] by auto

lemma split_at_underscore:
  fixes a b r r' :: js_string
  assumes "95 \<notin> set a" and "95 \<notin> set b" and "a @ 95 # r = b @ 95 # r'"
  shows "a = b \<and> r = r'"
proof -
  have "takeWhile (\<lambda>c. c \<noteq> 95) (a @ 95 # r) = a"
    using assms(1) by (auto simp add: takeWhile_tail takeWhile_eq_all_conv)
  moreover have "takeWhile (\<lambda>c. c \<noteq> 95) (b @ 95 # r') = b"
    using assms(2) by (auto simp add: takeWhile_tail takeWhile_eq_all_conv)
  ultimately have "a = b" using assms(3) by simp
  with assms(3) show ?thesis by simp
qed

lemma js_underscore: "js ''_'' = [95]"
  by (simp add: js_def)

lemma unique_id_eq_iff:
  "unique_id p env i k = unique_id p env' j k' \<longleftrightarrow>
     i = j \<and> Date_now env k = Date_now env' k' \<and> Math_random env k = Math_random env' k'"
proof
  assume eq: "unique_id p env i k = unique_id p env' j k'"
  then have 1: "show_nat i @ 95 # (show_nat (Date_now env k) @ 95 # Math_random env k)
              = show_nat j @ 95 # (show_nat (Date_now env' k') @ 95 # Math_random env' k')"
    by (simp add: unique_id_def js_underscore)
  from split_at_underscore [OF show_nat_no_underscore show_nat_no_underscore 1]
  have ij: "show_nat i = show_nat j"
    and 2: "show_nat (Date_now env k) @ 95 # Math_random env k
          = show_nat (Date_now env' k') @ 95 # Math_random env' k'"
    by simp_all
  from split_at_underscore [OF show_nat_no_underscore show_nat_no_underscore 2]
  have "show_nat (Date_now env k) = show_nat (Date_now env' k')"
    and "Math_random env k = Math_random env' k'"
    by simp_all
  with ij show "i = j \<and> Date_now env k = Date_now env' k' \<and> Math_random env k = Math_random env' k'"
    by (auto dest: show_nat_inj)
next
  assume "i = j \<and> Date_now env k = Date_now env' k' \<and> Math_random env k = Math_random env' k'"
  then show "unique_id p env i k = unique_id p env' j k'"
    by (simp add: unique_id_def)
qed

lemma unique_id_node_nonempty: "unique_id ''node_'' env i k \<noteq> []"
  by (simp add: unique_id_def js_def)

lemma map_nodes_fst:
  "fst (map_nodes env i ns m) =
     map (\<lambda>(j, n). n\<lparr>nid := JStr (unique_id ''node_'' env j j)\<rparr>) (enumerate i ns)"
  by (induction ns arbitrary: i m) (simp_all add: Let_def split_beta)

lemma map_nodes_ids:
  "map nid (fst (map_nodes env i ns m)) =
     map (\<lambda>j. JStr (unique_id ''node_'' env j j)) [i..<i + length ns]"
  by (simp add: map_nodes_fst split_beta comp_def flip: map_fst_enumerate)

lemma map_nodes_length: "length (fst (map_nodes env i ns m)) = length ns"
  by (simp add: map_nodes_fst)

lemma map_nodes_distinct: "distinct (map nid (fst (map_nodes env i ns m)))"
  unfolding map_nodes_ids
  by (auto simp add: distinct_map inj_on_def unique_id_eq_iff)

lemma map_nodes_snd_other:
  "x \<notin> nid ` set ns \<Longrightarrow> snd (map_nodes env i ns m) x = m x"
  by (induction ns arbitrary: i m) (auto simp add: Let_def split_beta)

lemma map_nodes_snd_mapped:
  "x \<in> nid ` set ns \<Longrightarrow>
     \<exists>j < length ns. nid (ns ! j) = x \<and>
        snd (map_nodes env i ns m) x = Some (unique_id ''node_'' env (i + j) (i + j))"
proof (induction ns arbitrary: i m)
  case Nil
  then show ?case by simp
next
  case (Cons node rest)
  show ?case
  proof (cases "x \<in> nid ` set rest")
    case True
    from Cons.IH [OF True, of "Suc i" "m(nid node \<mapsto> unique_id ''node_'' env i i)"]
    obtain j where "j < length rest" "nid (rest ! j) = x"
      "snd (map_nodes env (Suc i) rest (m(nid node \<mapsto> unique_id ''node_'' env i i))) x
         = Some (unique_id ''node_'' env (Suc i + j) (Suc i + j))"
      by blast
    then have "Suc j < length (node # rest) \<and> nid ((node # rest) ! Suc j) = x \<and>
        snd (map_nodes env i (node # rest) m) x = Some (unique_id ''node_'' env (i + Suc j) (i + Suc j))"
      by (simp add: Let_def split_beta)
    then show ?thesis by blast
  next
    case False
    with Cons.prems have x: "x = nid node" by auto
    from False have "snd (map_nodes env i (node # rest) m) x = Some (unique_id ''node_'' env i i)"
      by (simp add: Let_def split_beta map_nodes_snd_other x)
    with x have "0 < length (node # rest) \<and> nid ((node # rest) ! 0) = x \<and>
        snd (map_nodes env i (node # rest) m) x = Some (unique_id ''node_'' env (i + 0) (i + 0))"
      by simp
    then show ?thesis by blast
  qed
qed

lemma map_edges_eq:
  "map_edges env M k0 i es =
     map (\<lambda>(j, e). e\<lparr>eid := JStr (unique_id ''edge_'' env j (k0 + j)),
                      efrom := remap M (efrom e), eto := remap M (eto e)\<rparr>) (enumerate i es)"
  by (induction es arbitrary: i) simp_all

section \<open>The payload builders\<close>

lemma showQueryGraph_filter_iff:
  "showQueryGraph_filter e \<longleftrightarrow> truthy (efrom e) \<and> truthy (eto e) \<and> efrom e \<noteq> eto e"
  by (simp add: showQueryGraph_filter_def showQueryGraph_isValid_def js_and_def strict_neq_def)

lemma fetchFullKG_filter_iff:
  "fetchFullKG_filter e \<longleftrightarrow> truthy (efrom e) \<and> truthy (eto e) \<and> efrom e \<noteq> eto e"
  by (simp add: fetchFullKG_filter_def fetchFullKG_isValid_def js_and_def strict_neq_def)

lemma showQueryGraph_payload_eq:
  "showQueryGraph_payload env ns es =
     \<lparr>nodes = processedNodes env ns,
      edges = map_edges env (nodeIdMap_of env ns) (length ns) 0
                (filter showQueryGraph_filter (edges_or_empty es))\<rparr>"
  by (simp add: showQueryGraph_payload_def processedNodes_def nodeIdMap_of_def split_beta)

lemma fetchFullKG_payload_eq:
  "fetchFullKG_payload env ns es =
     \<lparr>nodes = processedNodes env ns,
      edges = map_edges env (nodeIdMap_of env ns) (length ns) 0
                (filter fetchFullKG_filter (edges_or_empty es))\<rparr>"
  by (simp add: fetchFullKG_payload_def processedNodes_def nodeIdMap_of_def split_beta)

lemma processedNodes_ids:
  "map nid (processedNodes env ns) = map (\<lambda>j. JStr (unique_id ''node_'' env j j)) [0..<length ns]"
  using map_nodes_ids [of env 0 ns Map.empty] by (simp add: processedNodes_def)

lemma processedNodes_distinct: "distinct (map nid (processedNodes env ns))"
  by (simp add: processedNodes_def map_nodes_distinct)

lemma processedNodes_id_iff:
  "x \<in> set (map nid (processedNodes env ns)) \<longleftrightarrow> (\<exists>j < length ns. x = JStr (unique_id ''node_'' env j j))"
  unfolding processedNodes_ids by auto

lemma nodeIdMap_of_mapped:
  "x \<in> nid ` set ns \<Longrightarrow>
     \<exists>j < length ns. nid (ns ! j) = x \<and> nodeIdMap_of env ns x = Some (unique_id ''node_'' env j j)"
  using map_nodes_snd_mapped [of x ns env 0 Map.empty] by (simp add: nodeIdMap_of_def)

lemma nodeIdMap_of_other: "x \<notin> nid ` set ns \<Longrightarrow> nodeIdMap_of env ns x = None"
  by (simp add: nodeIdMap_of_def map_nodes_snd_other)

lemma nodeIdMap_of_dom: "dom (nodeIdMap_of env ns) = nid ` set ns"
proof
  show "dom (nodeIdMap_of env ns) \<subseteq> nid ` set ns"
  proof
    fix x assume "x \<in> dom (nodeIdMap_of env ns)"
    then have some: "nodeIdMap_of env ns x \<noteq> None" by auto
    show "x \<in> nid ` set ns"
    proof (rule ccontr)
      assume "x \<notin> nid ` set ns"
      then have "nodeIdMap_of env ns x = None" by (rule nodeIdMap_of_other)
      with some show False by simp
    qed
  qed
  show "nid ` set ns \<subseteq> dom (nodeIdMap_of env ns)"
    using nodeIdMap_of_mapped [of _ ns env] by (fastforce simp add: dom_def)
qed

lemma remap_mapped:
  "x \<in> nid ` set ns \<Longrightarrow>
     \<exists>j < length ns. nid (ns ! j) = x \<and> remap (nodeIdMap_of env ns) x = JStr (unique_id ''node_'' env j j)"
proof -
  assume "x \<in> nid ` set ns"
  from nodeIdMap_of_mapped [OF this, of env]
  obtain j where "j < length ns" "nid (ns ! j) = x"
    "nodeIdMap_of env ns x = Some (unique_id ''node_'' env j j)" by blast
  then show ?thesis
    by (auto simp add: remap_def js_or_def unique_id_node_nonempty)
qed

lemma remap_other: "x \<notin> nid ` set ns \<Longrightarrow> remap (nodeIdMap_of env ns) x = x"
  by (simp add: remap_def js_or_def nodeIdMap_of_other)

lemma map_edges_length: "length (map_edges env M k0 i es) = length es"
  by (simp add: map_edges_eq)

lemma map_edges_nth:
  "j < length es \<Longrightarrow>
     map_edges env M k0 i es ! j =
       (es ! j)\<lparr>eid := JStr (unique_id ''edge_'' env (i + j) (k0 + (i + j))),
                 efrom := remap M (efrom (es ! j)), eto := remap M (eto (es ! j))\<rparr>"
  by (simp add: map_edges_eq nth_enumerate_eq)

section \<open>Evaluating the model on concrete inputs\<close>

lemma js_eval: "js [] = []" "js (c # cs) = of_char c # js cs"
  by (simp_all add: js_def)

lemmas payload_eval =
  showQueryGraph_payload_def fetchFullKG_payload_def Let_def unique_id_def js_eval
  show_nat_lt10 show_nat_ge10 remap_def js_or_def js_and_def strict_neq_def edges_or_empty_def
  showQueryGraph_filter_def showQueryGraph_isValid_def fetchFullKG_filter_def fetchFullKG_isValid_def
  node_a_def node_b_def edge_of_def

lemma example_payload:
  "showQueryGraph_payload example_env [node_a, node_b] (Some [edge_of (JStr (js ''a'')) (JStr (js ''b''))])
     = \<lparr>nodes = [node_a\<lparr>nid := JStr (js ''node_0_1700000000000_0.5'')\<rparr>,
                 node_b\<lparr>nid := JStr (js ''node_1_1700000000000_0.7'')\<rparr>],
        edges = [\<lparr>eid = JStr (js ''edge_0_1700000000000_0.9''),
                  efrom = JStr (js ''node_0_1700000000000_0.5''),
                  eto = JStr (js ''node_1_1700000000000_0.7''),
                  elabel = JStr (js ''treats'')\<rparr>]\<rparr>"
  by (simp add: payload_eval example_env_def)

lemma example_processedNodes:
  "map nid (processedNodes example_env [node_a, node_b])
     = [JStr (js ''node_0_1700000000000_0.5''), JStr (js ''node_1_1700000000000_0.7'')]"
  by (simp add: processedNodes_def payload_eval example_env_def)

section \<open>\<open>processResponseText\<close> removes every asterisk\<close>

lemma match2_without_asterisk: "c \<noteq> 42 \<Longrightarrow> match2 (c # cs) = None"
  by (cases cs) simp_all

lemma replace_bold2_without_asterisk: "42 \<notin> set s \<Longrightarrow> replace_bold2 s = s"
  by (induction s) (simp_all add: match2_without_asterisk)

lemma replace_bold1_without_asterisk: "42 \<notin> set s \<Longrightarrow> replace_bold1 s = s"
  by (induction s) simp_all

lemma remove_asterisks_without_asterisk: "42 \<notin> set s \<Longrightarrow> remove_asterisks s = s"
  by (induction s) (simp_all add: remove_asterisks_def)

lemma remove_asterisks_free: "42 \<notin> set (remove_asterisks s)"
  by (simp add: remove_asterisks_def)

lemma processResponseText_without_asterisk: "42 \<notin> set s \<Longrightarrow> processResponseText s = s"
  by (simp add: processResponseText_def replace_bold2_without_asterisk
      replace_bold1_without_asterisk remove_asterisks_without_asterisk)

lemma processResponseText_free: "42 \<notin> set (processResponseText s)"
  by (simp add: processResponseText_def remove_asterisks_free)

text \<open>
  C10.  \<open>processResponseText\<close> is idempotent: applying it twice gives what applying it
  once gives; and its output holds no asterisk (code unit 42).
\<close>

theorem processResponseText_idempotent:
  "processResponseText (processResponseText text) = processResponseText text
   \<and> 42 \<notin> set (processResponseText text)"
proof
  have free: "42 \<notin> set (processResponseText text)"
    by (rule processResponseText_free)
  then show "processResponseText (processResponseText text) = processResponseText text"
    by (rule processResponseText_without_asterisk)
  show "42 \<notin> set (processResponseText text)"
    by (rule free)
qed

lemma processResponseText_example:
  "processResponseText (js ''**Tulsi** helps *stress* * now'') = js ''<b>Tulsi</b> helps <b>stress</b>  now''"
  by (simp add: processResponseText_def remove_asterisks_def js_eval is_line_terminator_def)

theorem processResponseText_idempotent_witness:
  "processResponseText (processResponseText (js ''**Tulsi** helps *stress* * now''))
     = js ''<b>Tulsi</b> helps <b>stress</b>  now''
   \<and> 42 \<notin> set (js ''<b>Tulsi</b> helps <b>stress</b>  now'')"
  using processResponseText_idempotent [of "js ''**Tulsi** helps *stress* * now''"]
  by (simp add: processResponseText_example)

section \<open>Render-node ids\<close>

lemma processedNodes_ids_disjoint_iff:
  "set (map nid (processedNodes env ns)) \<inter> set (map nid (processedNodes env' ns')) = {} \<longleftrightarrow>
     (\<forall>i. i < length ns \<and> i < length ns' \<longrightarrow>
        Date_now env i \<noteq> Date_now env' i \<or> Math_random env i \<noteq> Math_random env' i)"
proof
  assume disj: "set (map nid (processedNodes env ns)) \<inter> set (map nid (processedNodes env' ns')) = {}"
  show "\<forall>i. i < length ns \<and> i < length ns' \<longrightarrow>
        Date_now env i \<noteq> Date_now env' i \<or> Math_random env i \<noteq> Math_random env' i"
  proof (intro allI impI)
    fix i assume i: "i < length ns \<and> i < length ns'"
    show "Date_now env i \<noteq> Date_now env' i \<or> Math_random env i \<noteq> Math_random env' i"
    proof (rule ccontr)
      assume "\<not> (Date_now env i \<noteq> Date_now env' i \<or> Math_random env i \<noteq> Math_random env' i)"
      then have "unique_id ''node_'' env i i = unique_id ''node_'' env' i i"
        by (simp add: unique_id_eq_iff)
      with i have "JStr (unique_id ''node_'' env i i) \<in> set (map nid (processedNodes env ns))"
        and "JStr (unique_id ''node_'' env i i) \<in> set (map nid (processedNodes env' ns'))"
        unfolding processedNodes_id_iff by auto
      with disj show False by blast
    qed
  qed
next
  assume differ: "\<forall>i. i < length ns \<and> i < length ns' \<longrightarrow>
        Date_now env i \<noteq> Date_now env' i \<or> Math_random env i \<noteq> Math_random env' i"
  show "set (map nid (processedNodes env ns)) \<inter> set (map nid (processedNodes env' ns')) = {}"
  proof (rule ccontr)
    assume "set (map nid (processedNodes env ns)) \<inter> set (map nid (processedNodes env' ns')) \<noteq> {}"
    then obtain x where "x \<in> set (map nid (processedNodes env ns))"
      and "x \<in> set (map nid (processedNodes env' ns'))" by blast
    then obtain i j where "i < length ns" "x = JStr (unique_id ''node_'' env i i)"
      and "j < length ns'" "x = JStr (unique_id ''node_'' env' j j)"
      unfolding processedNodes_id_iff by blast
    then have eq: "unique_id ''node_'' env i i = unique_id ''node_'' env' j j"
      and lt: "i < length ns" "j < length ns'"
      by simp_all
    from eq [unfolded unique_id_eq_iff]
    have "i = j" and "Date_now env i = Date_now env' j" and "Math_random env i = Math_random env' j"
      by blast+
    with differ lt show False by blast
  qed
qed

lemma nodeIdMap_of_range:
  assumes "n \<in> set ns"
  shows "\<exists>u. nodeIdMap_of env ns (nid n) = Some u \<and> JStr u \<in> set (map nid (processedNodes env ns))"
proof -
  from assms have "nid n \<in> nid ` set ns" by simp
  from nodeIdMap_of_mapped [OF this, of env]
  obtain j where "j < length ns" "nodeIdMap_of env ns (nid n) = Some (unique_id ''node_'' env j j)"
    by blast
  then show ?thesis
    unfolding processedNodes_id_iff by blast
qed

text \<open>
  C3 (amended).  In the payload of \<open>showQueryGraph\<close> and of \<open>fetchFullKG\<close> the render-node
  ids are pairwise distinct, whatever the original ids are.  The id map built during the
  construction holds exactly the original node ids, sends each of them to the id of a
  render-node, and every surviving edge gets its endpoints through it
  (\<open>nodeIdMap.get(x) || x\<close>).  Ids are generated anew in every invocation from the node
  index, the clock and a random number: two invocations share an id exactly when, at
  some index both have, the clock reading and the random number coincide.
\<close>

theorem render_node_ids_unique:
  "distinct (map nid (nodes (showQueryGraph_payload env ns es)))
   \<and> distinct (map nid (nodes (fetchFullKG_payload env ns es)))
   \<and> dom (nodeIdMap_of env ns) = nid ` set ns
   \<and> (\<forall>n \<in> set ns. \<exists>u. nodeIdMap_of env ns (nid n) = Some u
          \<and> JStr u \<in> set (map nid (nodes (showQueryGraph_payload env ns es)))
          \<and> JStr u \<in> set (map nid (nodes (fetchFullKG_payload env ns es))))
   \<and> (\<forall>j < length (filter showQueryGraph_filter (edges_or_empty es)).
          efrom (edges (showQueryGraph_payload env ns es) ! j)
            = remap (nodeIdMap_of env ns) (efrom (filter showQueryGraph_filter (edges_or_empty es) ! j))
        \<and> eto (edges (showQueryGraph_payload env ns es) ! j)
            = remap (nodeIdMap_of env ns) (eto (filter showQueryGraph_filter (edges_or_empty es) ! j)))
   \<and> (\<forall>j < length (filter fetchFullKG_filter (edges_or_empty es)).
          efrom (edges (fetchFullKG_payload env ns es) ! j)
            = remap (nodeIdMap_of env ns) (efrom (filter fetchFullKG_filter (edges_or_empty es) ! j))
        \<and> eto (edges (fetchFullKG_payload env ns es) ! j)
            = remap (nodeIdMap_of env ns) (eto (filter fetchFullKG_filter (edges_or_empty es) ! j)))
   \<and> (set (map nid (nodes (showQueryGraph_payload env ns es)))
         \<inter> set (map nid (nodes (showQueryGraph_payload env' ns' es'))) = {}
        \<longleftrightarrow> (\<forall>i. i < length ns \<and> i < length ns' \<longrightarrow>
               Date_now env i \<noteq> Date_now env' i \<or> Math_random env i \<noteq> Math_random env' i))"
proof (intro conjI)
  show "distinct (map nid (nodes (showQueryGraph_payload env ns es)))"
    by (simp add: showQueryGraph_payload_eq processedNodes_distinct)
  show "distinct (map nid (nodes (fetchFullKG_payload env ns es)))"
    by (simp add: fetchFullKG_payload_eq processedNodes_distinct)
  show "dom (nodeIdMap_of env ns) = nid ` set ns"
    by (rule nodeIdMap_of_dom)
  show "\<forall>n \<in> set ns. \<exists>u. nodeIdMap_of env ns (nid n) = Some u
          \<and> JStr u \<in> set (map nid (nodes (showQueryGraph_payload env ns es)))
          \<and> JStr u \<in> set (map nid (nodes (fetchFullKG_payload env ns es)))"
    using nodeIdMap_of_range [of _ ns env]
    by (simp add: showQueryGraph_payload_eq fetchFullKG_payload_eq)
  show "\<forall>j < length (filter showQueryGraph_filter (edges_or_empty es)).
          efrom (edges (showQueryGraph_payload env ns es) ! j)
            = remap (nodeIdMap_of env ns) (efrom (filter showQueryGraph_filter (edges_or_empty es) ! j))
        \<and> eto (edges (showQueryGraph_payload env ns es) ! j)
            = remap (nodeIdMap_of env ns) (eto (filter showQueryGraph_filter (edges_or_empty es) ! j))"
    by (simp add: showQueryGraph_payload_eq map_edges_nth)
  show "\<forall>j < length (filter fetchFullKG_filter (edges_or_empty es)).
          efrom (edges (fetchFullKG_payload env ns es) ! j)
            = remap (nodeIdMap_of env ns) (efrom (filter fetchFullKG_filter (edges_or_empty es) ! j))
        \<and> eto (edges (fetchFullKG_payload env ns es) ! j)
            = remap (nodeIdMap_of env ns) (eto (filter fetchFullKG_filter (edges_or_empty es) ! j))"
    by (simp add: fetchFullKG_payload_eq map_edges_nth)
  show "set (map nid (nodes (showQueryGraph_payload env ns es)))
         \<inter> set (map nid (nodes (showQueryGraph_payload env' ns' es'))) = {}
        \<longleftrightarrow> (\<forall>i. i < length ns \<and> i < length ns' \<longrightarrow>
               Date_now env i \<noteq> Date_now env' i \<or> Math_random env i \<noteq> Math_random env' i)"
    using processedNodes_ids_disjoint_iff [of env ns env' ns']
    by (simp add: showQueryGraph_payload_eq)
qed

text \<open>Two nodes that share the entity id \<open>a\<close>: the later one owns the entry of the map.\<close>

lemma example_twin_payload:
  "showQueryGraph_payload example_env [node_a, node_a] (Some [edge_of (JStr (js ''a'')) (JStr (js ''b''))])
     = \<lparr>nodes = [node_a\<lparr>nid := JStr (js ''node_0_1700000000000_0.5'')\<rparr>,
                 node_a\<lparr>nid := JStr (js ''node_1_1700000000000_0.7'')\<rparr>],
        edges = [\<lparr>eid = JStr (js ''edge_0_1700000000000_0.9''),
                  efrom = JStr (js ''node_1_1700000000000_0.7''),
                  eto = JStr (js ''b''),
                  elabel = JStr (js ''treats'')\<rparr>]\<rparr>"
  by (simp add: payload_eval example_env_def)

lemma example_twin_remap:
  "remap (nodeIdMap_of example_env [node_a, node_a]) (JStr (js ''a''))
     = JStr (js ''node_1_1700000000000_0.7'')"
  by (simp add: nodeIdMap_of_def payload_eval example_env_def)

theorem render_node_ids_unique_witness:
  "map nid (nodes (showQueryGraph_payload example_env [node_a, node_a]
                     (Some [edge_of (JStr (js ''a'')) (JStr (js ''b''))])))
     = [JStr (js ''node_0_1700000000000_0.5''), JStr (js ''node_1_1700000000000_0.7'')]
   \<and> distinct [JStr (js ''node_0_1700000000000_0.5''), JStr (js ''node_1_1700000000000_0.7'')]
   \<and> efrom (edges (showQueryGraph_payload example_env [node_a, node_a]
                      (Some [edge_of (JStr (js ''a'')) (JStr (js ''b''))])) ! 0)
       = JStr (js ''node_1_1700000000000_0.7'')
   \<and> set (map nid (nodes (showQueryGraph_payload example_env [node_a, node_a]
                           (Some [edge_of (JStr (js ''a'')) (JStr (js ''b''))]))))
       \<inter> set (map nid (nodes (showQueryGraph_payload example_env_later [node_a, node_a] None))) = {}"
proof -
  let ?es = "Some [edge_of (JStr (js ''a'')) (JStr (js ''b''))]"
  let ?P = "showQueryGraph_payload example_env [node_a, node_a] ?es"
  let ?P' = "showQueryGraph_payload example_env_later [node_a, node_a] None"
  note t = render_node_ids_unique [of example_env "[node_a, node_a]" ?es
      example_env_later "[node_a, node_a]" None]
  have kept: "filter showQueryGraph_filter (edges_or_empty ?es) = [edge_of (JStr (js ''a'')) (JStr (js ''b''))]"
    by (simp add: showQueryGraph_filter_iff edges_or_empty_def edge_of_def js_eval)
  have differ: "\<forall>i. i < length [node_a, node_a] \<and> i < length [node_a, node_a] \<longrightarrow>
      Date_now example_env i \<noteq> Date_now example_env_later i
      \<or> Math_random example_env i \<noteq> Math_random example_env_later i"
    by (simp add: example_env_def example_env_later_def)
  from t have d: "distinct (map nid (nodes ?P))"
    by (elim conjE)
  from t have "\<forall>j < length (filter showQueryGraph_filter (edges_or_empty ?es)).
          efrom (edges ?P ! j)
            = remap (nodeIdMap_of example_env [node_a, node_a])
                (efrom (filter showQueryGraph_filter (edges_or_empty ?es) ! j))
        \<and> eto (edges ?P ! j)
            = remap (nodeIdMap_of example_env [node_a, node_a])
                (eto (filter showQueryGraph_filter (edges_or_empty ?es) ! j))"
    by (elim conjE)
  then have e: "efrom (edges ?P ! 0) = remap (nodeIdMap_of example_env [node_a, node_a]) (JStr (js ''a''))"
    unfolding kept by (simp add: edge_of_def)
  from t have "set (map nid (nodes ?P)) \<inter> set (map nid (nodes ?P')) = {}
        \<longleftrightarrow> (\<forall>i. i < length [node_a, node_a] \<and> i < length [node_a, node_a] \<longrightarrow>
               Date_now example_env i \<noteq> Date_now example_env_later i
               \<or> Math_random example_env i \<noteq> Math_random example_env_later i)"
    by (elim conjE)
  with differ have i: "set (map nid (nodes ?P)) \<inter> set (map nid (nodes ?P')) = {}"
    by blast
  have ids: "map nid (nodes ?P)
     = [JStr (js ''node_0_1700000000000_0.5''), JStr (js ''node_1_1700000000000_0.7'')]"
    by (simp add: example_twin_payload)
  from d have "distinct [JStr (js ''node_0_1700000000000_0.5''), JStr (js ''node_1_1700000000000_0.7'')]"
    unfolding ids .
  with ids e i show ?thesis
    by (simp only: example_twin_remap simp_thms)
qed

text \<open>
  C3 as stated fails: ids are not protected against reuse across invocations.  A second
  invocation in the same millisecond whose first random number is again \<open>0.5\<close> gives its
  first node the id the first invocation gave to another entity.
\<close>

theorem render_node_id_reused_counterexample:
  "nid (nodes (showQueryGraph_payload example_env [node_a] None) ! 0)
     = JStr (js ''node_0_1700000000000_0.5'')
   \<and> nid (nodes (showQueryGraph_payload example_env_again [node_b] None) ! 0)
     = JStr (js ''node_0_1700000000000_0.5'')"
  by (simp add: payload_eval example_env_def example_env_again_def)

section \<open>Edge endpoints after remapping\<close>

lemma remap_in_nodes:
  "x \<in> nid ` set ns \<Longrightarrow> remap (nodeIdMap_of env ns) x \<in> set (map nid (processedNodes env ns))"
  using remap_mapped [of x ns env] unfolding processedNodes_id_iff by auto

lemma remap_distinct:
  assumes "a \<noteq> b"
    and a: "a \<notin> nid ` set ns \<Longrightarrow> a \<notin> set (map nid (processedNodes env ns))"
    and b: "b \<notin> nid ` set ns \<Longrightarrow> b \<notin> set (map nid (processedNodes env ns))"
  shows "remap (nodeIdMap_of env ns) a \<noteq> remap (nodeIdMap_of env ns) b"
proof (cases "a \<in> nid ` set ns")
  case True
  note a_in = True
  from remap_mapped [OF True, of env]
  obtain i where i: "i < length ns" "nid (ns ! i) = a"
    "remap (nodeIdMap_of env ns) a = JStr (unique_id ''node_'' env i i)" by blast
  show ?thesis
  proof (cases "b \<in> nid ` set ns")
    case True
    from remap_mapped [OF True, of env]
    obtain j where j: "j < length ns" "nid (ns ! j) = b"
      "remap (nodeIdMap_of env ns) b = JStr (unique_id ''node_'' env j j)" by blast
    from i j assms(1) have "i \<noteq> j" by auto
    with i j show ?thesis by (simp add: unique_id_eq_iff)
  next
    case False
    then have "remap (nodeIdMap_of env ns) b = b" by (rule remap_other)
    moreover from b [OF False] have "b \<notin> set (map nid (processedNodes env ns))" .
    moreover from remap_in_nodes [OF a_in, of env]
    have "remap (nodeIdMap_of env ns) a \<in> set (map nid (processedNodes env ns))" .
    ultimately show ?thesis by metis
  qed
next
  case False
  note a_out = False
  then have ra: "remap (nodeIdMap_of env ns) a = a" by (rule remap_other)
  show ?thesis
  proof (cases "b \<in> nid ` set ns")
    case True
    from remap_in_nodes [OF True, of env] a [OF a_out] ra show ?thesis by metis
  next
    case False
    then have "remap (nodeIdMap_of env ns) b = b" by (rule remap_other)
    with ra assms(1) show ?thesis by simp
  qed
qed

lemma map_edges_endpoints:
  assumes "j < length kept"
  shows "efrom (map_edges env M k0 0 kept ! j) = remap M (efrom (kept ! j))
       \<and> eto (map_edges env M k0 0 kept ! j) = remap M (eto (kept ! j))"
  using assms by (simp add: map_edges_nth)

lemma map_edges_set:
  "e \<in> set (map_edges env M k0 i kept) \<Longrightarrow>
     \<exists>e0 \<in> set kept. efrom e = remap M (efrom e0) \<and> eto e = remap M (eto e0)"
  by (induction kept arbitrary: i) auto

text \<open>
  C1 (amended).  On the query-graph path and on the full-graph path alike, an edge
  survives exactly when both endpoints are truthy and differ.  A surviving edge's
  endpoint that is the id of an input node becomes the id of a render-node of the
  payload; an endpoint that is the id of no input node is emitted unchanged: the edge is
  not dropped.
\<close>

theorem edge_endpoints_resolved_or_kept:
  "(showQueryGraph_filter e \<longleftrightarrow> truthy (efrom e) \<and> truthy (eto e) \<and> efrom e \<noteq> eto e)
   \<and> (fetchFullKG_filter e \<longleftrightarrow> truthy (efrom e) \<and> truthy (eto e) \<and> efrom e \<noteq> eto e)
   \<and> length (edges (showQueryGraph_payload env ns es))
       = length (filter showQueryGraph_filter (edges_or_empty es))
   \<and> length (edges (fetchFullKG_payload env ns es))
       = length (filter fetchFullKG_filter (edges_or_empty es))
   \<and> (\<forall>j < length (filter showQueryGraph_filter (edges_or_empty es)).
        (let e0 = filter showQueryGraph_filter (edges_or_empty es) ! j;
             e' = edges (showQueryGraph_payload env ns es) ! j;
             ids = set (map nid (nodes (showQueryGraph_payload env ns es)))
         in (if efrom e0 \<in> nid ` set ns then efrom e' \<in> ids else efrom e' = efrom e0)
          \<and> (if eto e0 \<in> nid ` set ns then eto e' \<in> ids else eto e' = eto e0)))
   \<and> (\<forall>j < length (filter fetchFullKG_filter (edges_or_empty es)).
        (let e0 = filter fetchFullKG_filter (edges_or_empty es) ! j;
             e' = edges (fetchFullKG_payload env ns es) ! j;
             ids = set (map nid (nodes (fetchFullKG_payload env ns es)))
         in (if efrom e0 \<in> nid ` set ns then efrom e' \<in> ids else efrom e' = efrom e0)
          \<and> (if eto e0 \<in> nid ` set ns then eto e' \<in> ids else eto e' = eto e0)))"
proof -
  have resolved: "(if x \<in> nid ` set ns
                   then remap (nodeIdMap_of env ns) x \<in> set (map nid (processedNodes env ns))
                   else remap (nodeIdMap_of env ns) x = x)" for x
    using remap_in_nodes [of x ns env] remap_other [of x ns env] by simp
  show ?thesis
    by (simp add: showQueryGraph_filter_iff fetchFullKG_filter_iff showQueryGraph_payload_eq
        fetchFullKG_payload_eq map_edges_length map_edges_nth Let_def resolved del: set_map)
qed

lemma example_dangling_kept:
  "filter showQueryGraph_filter (edges_or_empty (Some [edge_of (JStr (js ''a'')) (JStr (js ''c''))]))
     = [edge_of (JStr (js ''a'')) (JStr (js ''c''))]"
  "filter fetchFullKG_filter (edges_or_empty (Some [edge_of (JStr (js ''a'')) (JStr (js ''c''))]))
     = [edge_of (JStr (js ''a'')) (JStr (js ''c''))]"
  by (simp_all add: showQueryGraph_filter_iff fetchFullKG_filter_iff edges_or_empty_def edge_of_def js_eval)

theorem edge_endpoints_resolved_or_kept_witness:
  "showQueryGraph_filter (edge_of (JStr (js ''a'')) (JStr (js ''c'')))
   \<and> JStr (js ''a'') \<in> nid ` set [node_a, node_b]
   \<and> JStr (js ''c'') \<notin> nid ` set [node_a, node_b]
   \<and> efrom (edges (showQueryGraph_payload example_env [node_a, node_b]
                      (Some [edge_of (JStr (js ''a'')) (JStr (js ''c''))])) ! 0)
       \<in> set (map nid (nodes (showQueryGraph_payload example_env [node_a, node_b]
                                (Some [edge_of (JStr (js ''a'')) (JStr (js ''c''))]))))
   \<and> eto (edges (showQueryGraph_payload example_env [node_a, node_b]
                    (Some [edge_of (JStr (js ''a'')) (JStr (js ''c''))])) ! 0)
       = JStr (js ''c'')
   \<and> eto (edges (fetchFullKG_payload example_env [node_a, node_b]
                    (Some [edge_of (JStr (js ''a'')) (JStr (js ''c''))])) ! 0)
       = JStr (js ''c'')"
proof -
  have a: "JStr (js ''a'') \<in> nid ` set [node_a, node_b]"
    and c: "JStr (js ''c'') \<notin> nid ` set [node_a, node_b]"
    by (simp_all add: node_a_def node_b_def js_eval)
  have ends: "efrom (edge_of (JStr (js ''a'')) (JStr (js ''c''))) = JStr (js ''a'')"
    "eto (edge_of (JStr (js ''a'')) (JStr (js ''c''))) = JStr (js ''c'')"
    by (simp_all add: edge_of_def)
  have f: "showQueryGraph_filter (edge_of (JStr (js ''a'')) (JStr (js ''c'')))"
    by (simp add: showQueryGraph_filter_iff edge_of_def js_eval)
  show ?thesis
    using edge_endpoints_resolved_or_kept [of "edge_of (JStr (js ''a'')) (JStr (js ''c''))"
        example_env "[node_a, node_b]" "Some [edge_of (JStr (js ''a'')) (JStr (js ''c''))]"] a c f
    by (simp add: example_dangling_kept ends Let_def del: set_map set_simps image_insert)
qed

text \<open>
  C1 as stated fails: an edge to an id that belongs to no node is neither dropped nor
  resolved.  With nodes \<open>a\<close>, \<open>b\<close> and the edge \<open>a \<rightarrow> c\<close>, both paths emit the edge with
  \<open>to = "c"\<close>, which is not the id of any render-node.
\<close>

theorem dangling_edge_emitted_counterexample:
  "edges (showQueryGraph_payload example_env [node_a, node_b]
            (Some [edge_of (JStr (js ''a'')) (JStr (js ''c''))]))
     = [\<lparr>eid = JStr (js ''edge_0_1700000000000_0.9''),
         efrom = JStr (js ''node_0_1700000000000_0.5''),
         eto = JStr (js ''c''),
         elabel = JStr (js ''treats'')\<rparr>]
   \<and> edges (fetchFullKG_payload example_env [node_a, node_b]
            (Some [edge_of (JStr (js ''a'')) (JStr (js ''c''))]))
     = [\<lparr>eid = JStr (js ''edge_0_1700000000000_0.9''),
         efrom = JStr (js ''node_0_1700000000000_0.5''),
         eto = JStr (js ''c''),
         elabel = JStr (js ''treats'')\<rparr>]
   \<and> map nid (nodes (showQueryGraph_payload example_env [node_a, node_b]
                       (Some [edge_of (JStr (js ''a'')) (JStr (js ''c''))])))
     = [JStr (js ''node_0_1700000000000_0.5''), JStr (js ''node_1_1700000000000_0.7'')]
   \<and> map nid (nodes (fetchFullKG_payload example_env [node_a, node_b]
                       (Some [edge_of (JStr (js ''a'')) (JStr (js ''c''))])))
     = [JStr (js ''node_0_1700000000000_0.5''), JStr (js ''node_1_1700000000000_0.7'')]
   \<and> JStr (js ''c'') \<notin> set [JStr (js ''node_0_1700000000000_0.5''), JStr (js ''node_1_1700000000000_0.7'')]"
  by (simp add: payload_eval example_env_def)

section \<open>The effect builds the same ids and the same endpoints\<close>

lemma effect_map_nodes_eq:
  "effect_map_nodes env i ns m =
     (map (\<lambda>(n, p). node.extend p (rnode.fields 12 (js ''#1e293b'') (node_size (ngroup n))))
        (zip ns (fst (map_nodes env i ns m))),
      snd (map_nodes env i ns m))"
  by (induction ns arbitrary: i m) (simp_all add: Let_def split_beta)

lemma nid_extend: "nid (node.extend p f) = nid p"
  by (simp add: node.defs)

lemma size_extend: "size (node.extend p (rnode.fields a b c)) = c"
  by (simp add: node.defs rnode.defs)

lemma map_zip_snd:
  "length xs = length ys \<Longrightarrow> (\<And>x y. f (g x y) = h y) \<Longrightarrow>
     map f (map (\<lambda>(x, y). g x y) (zip xs ys)) = map h ys"
  by (induction xs ys rule: list_induct2) simp_all

lemma map_zip_fst:
  "length xs = length ys \<Longrightarrow> (\<And>x y. f (g x y) = h x) \<Longrightarrow>
     map f (map (\<lambda>(x, y). g x y) (zip xs ys)) = map h xs"
  by (induction xs ys rule: list_induct2) simp_all

lemma effect_map_nodes_ids:
  "map nid (fst (effect_map_nodes env 0 ns Map.empty)) = map nid (processedNodes env ns)"
  unfolding effect_map_nodes_eq processedNodes_def fst_conv
  by (rule map_zip_snd) (simp_all add: map_nodes_length nid_extend)

lemma effect_map_nodes_sizes:
  "map size (fst (effect_map_nodes env i ns m)) = map (\<lambda>n. node_size (ngroup n)) ns"
  unfolding effect_map_nodes_eq fst_conv
  by (rule map_zip_fst) (simp_all add: map_nodes_length size_extend)

lemma effect_map_nodes_length: "length (fst (effect_map_nodes env i ns m)) = length ns"
  by (simp add: effect_map_nodes_eq map_nodes_length)

lemma effect_map_nodes_snd:
  "snd (effect_map_nodes env 0 ns Map.empty) = nodeIdMap_of env ns"
  by (simp add: effect_map_nodes_eq nodeIdMap_of_def)

lemma truthy_js_and: "truthy (js_and a b) \<longleftrightarrow> truthy a \<and> truthy b"
  by (simp add: js_and_def)

lemma effect_filter_fst:
  "fst (effect_filter es st) =
     filter (\<lambda>e. truthy (efrom e) \<and> truthy (eto e) \<and> efrom e \<noteq> eto e) es"
  by (induction es arbitrary: st) (auto simp add: Let_def split_beta truthy_js_and)

lemma effect_filter_snd:
  "snd (effect_filter es st) =
     st\<lparr>messages := messages st @
          map (\<lambda>e. self_loop_warning (efrom e))
            (filter (\<lambda>e. truthy (efrom e) \<and> truthy (eto e) \<and> efrom e = eto e) es)\<rparr>"
  by (induction es arbitrary: st) (auto simp add: Let_def split_beta truthy_js_and add_message_def)

lemma effect_map_edges_eq:
  "effect_map_edges env M k0 i es =
     map (\<lambda>e. edge.extend e
                (redge.fields True (js ''arrow'') 75 (js ''#64748b'') (js ''#3b82f6'')
                   10 (js ''middle'') (js ''#1e293b'') 2))
       (map_edges env M k0 i es)"
  by (induction es arbitrary: i) simp_all

lemma map_edges_Nil_iff: "map_edges env M k0 i es = [] \<longleftrightarrow> es = []"
  by (cases es) simp_all

lemma endpoints_extend: "efrom (edge.extend e f) = efrom e" "eto (edge.extend e f) = eto e"
  by (simp_all add: edge.defs)

lemma effect_build_eq:
  "effect_build env cgd st =
     (\<lparr>visNodes = fst (effect_map_nodes env 0 (nodes cgd) Map.empty),
       visEdges = effect_map_edges env (nodeIdMap_of env (nodes cgd)) (length (nodes cgd)) 0
                    (fst (effect_filter (edges cgd) st))\<rparr>,
      if length (edges cgd) > 0 \<and> fst (effect_filter (edges cgd) st) = []
      then add_message no_valid_edges_warning (snd (effect_filter (edges cgd) st))
      else snd (effect_filter (edges cgd) st))"
  by (simp add: effect_build_def split_beta Let_def effect_map_nodes_snd effect_map_edges_eq
      map_edges_Nil_iff)

section \<open>Self-loops\<close>

lemma map_edges_no_self_loop:
  assumes kept: "\<forall>e \<in> set kept. efrom e \<noteq> eto e"
    and fresh: "\<forall>e \<in> set kept. \<forall>x \<in> {efrom e, eto e}.
                  x \<notin> nid ` set ns \<longrightarrow> x \<notin> set (map nid (processedNodes env ns))"
    and e': "e' \<in> set (map_edges env (nodeIdMap_of env ns) k0 i kept)"
  shows "efrom e' \<noteq> eto e'"
proof -
  from map_edges_set [OF e'] obtain e0 where e0: "e0 \<in> set kept"
    and ends: "efrom e' = remap (nodeIdMap_of env ns) (efrom e0)"
      "eto e' = remap (nodeIdMap_of env ns) (eto e0)"
    by blast
  from kept e0 have "efrom e0 \<noteq> eto e0" by blast
  moreover from fresh e0
  have "efrom e0 \<notin> nid ` set ns \<Longrightarrow> efrom e0 \<notin> set (map nid (processedNodes env ns))"
    and "eto e0 \<notin> nid ` set ns \<Longrightarrow> eto e0 \<notin> set (map nid (processedNodes env ns))"
    by blast+
  ultimately have "remap (nodeIdMap_of env ns) (efrom e0) \<noteq> remap (nodeIdMap_of env ns) (eto e0)"
    by (rule remap_distinct)
  with ends show ?thesis by simp
qed

lemma map_edges_filter_no_self_loop:
  assumes fresh: "\<forall>e \<in> set es. \<forall>x \<in> {efrom e, eto e}.
          x \<notin> nid ` set ns \<longrightarrow> x \<notin> set (map nid (processedNodes env ns))"
    and P: "\<And>e. P e \<Longrightarrow> efrom e \<noteq> eto e"
  shows "\<forall>e' \<in> set (map_edges env (nodeIdMap_of env ns) (length ns) 0 (filter P es)).
           efrom e' \<noteq> eto e'"
proof
  fix e'
  assume "e' \<in> set (map_edges env (nodeIdMap_of env ns) (length ns) 0 (filter P es))"
  then show "efrom e' \<noteq> eto e'"
  proof (rule map_edges_no_self_loop [rotated 2])
    show "\<forall>e \<in> set (filter P es). efrom e \<noteq> eto e"
      using P by simp
    show "\<forall>e \<in> set (filter P es). \<forall>x \<in> {efrom e, eto e}.
              x \<notin> nid ` set ns \<longrightarrow> x \<notin> set (map nid (processedNodes env ns))"
      using fresh by simp
  qed
qed

text \<open>
  C2 (amended).  In \<open>showQueryGraph\<close>, in \<open>fetchFullKG\<close> and in the rendering effect, no
  edge of the input with \<open>from === to\<close> survives the filter.  The test is made on the
  original endpoints, before they are mapped; after the mapping no processed edge has
  \<open>from = to\<close>, provided no endpoint that is the id of no input node equals a render-node
  id generated in this invocation.
\<close>

theorem self_loops_filtered:
  "(\<forall>e \<in> set (filter showQueryGraph_filter es). efrom e \<noteq> eto e)
   \<and> (\<forall>e \<in> set (filter fetchFullKG_filter es). efrom e \<noteq> eto e)
   \<and> (\<forall>e \<in> set (fst (effect_filter es st)). efrom e \<noteq> eto e)
   \<and> ((\<forall>e \<in> set es. \<forall>x \<in> {efrom e, eto e}.
          x \<notin> nid ` set ns \<longrightarrow> x \<notin> set (map nid (processedNodes env ns)))
       \<longrightarrow> (\<forall>e' \<in> set (edges (showQueryGraph_payload env ns (Some es))). efrom e' \<noteq> eto e')
         \<and> (\<forall>e' \<in> set (edges (fetchFullKG_payload env ns (Some es))). efrom e' \<noteq> eto e')
         \<and> (\<forall>e' \<in> set (visEdges (fst (effect_build env \<lparr>nodes = ns, edges = es\<rparr> st))).
               efrom e' \<noteq> eto e'))"
proof (intro conjI impI)
  show "\<forall>e \<in> set (filter showQueryGraph_filter es). efrom e \<noteq> eto e"
    by (simp add: showQueryGraph_filter_iff)
  show "\<forall>e \<in> set (filter fetchFullKG_filter es). efrom e \<noteq> eto e"
    by (simp add: fetchFullKG_filter_iff)
  show "\<forall>e \<in> set (fst (effect_filter es st)). efrom e \<noteq> eto e"
    by (simp add: effect_filter_fst)
next
  assume fresh: "\<forall>e \<in> set es. \<forall>x \<in> {efrom e, eto e}.
          x \<notin> nid ` set ns \<longrightarrow> x \<notin> set (map nid (processedNodes env ns))"
  note loopfree = map_edges_filter_no_self_loop [OF fresh]
  have "\<forall>e' \<in> set (map_edges env (nodeIdMap_of env ns) (length ns) 0
                      (filter showQueryGraph_filter es)). efrom e' \<noteq> eto e'"
    by (rule loopfree) (simp add: showQueryGraph_filter_iff)
  then show "\<forall>e' \<in> set (edges (showQueryGraph_payload env ns (Some es))). efrom e' \<noteq> eto e'"
    by (simp add: showQueryGraph_payload_eq edges_or_empty_def)
  have "\<forall>e' \<in> set (map_edges env (nodeIdMap_of env ns) (length ns) 0
                      (filter fetchFullKG_filter es)). efrom e' \<noteq> eto e'"
    by (rule loopfree) (simp add: fetchFullKG_filter_iff)
  then show "\<forall>e' \<in> set (edges (fetchFullKG_payload env ns (Some es))). efrom e' \<noteq> eto e'"
    by (simp add: fetchFullKG_payload_eq edges_or_empty_def)
  have "\<forall>e' \<in> set (map_edges env (nodeIdMap_of env ns) (length ns) 0 (fst (effect_filter es st))).
          efrom e' \<noteq> eto e'"
    unfolding effect_filter_fst by (rule loopfree) simp
  then show "\<forall>e' \<in> set (visEdges (fst (effect_build env \<lparr>nodes = ns, edges = es\<rparr> st))).
               efrom e' \<noteq> eto e'"
    by (simp add: effect_build_eq effect_map_edges_eq endpoints_extend)
qed

theorem self_loops_filtered_witness:
  "\<not> showQueryGraph_filter (edge_of (JStr (js ''a'')) (JStr (js ''a'')))
   \<and> length (edges (showQueryGraph_payload example_env [node_a, node_b]
         (Some [edge_of (JStr (js ''a'')) (JStr (js ''b'')),
                edge_of (JStr (js ''a'')) (JStr (js ''a'')),
                edge_of (JStr (js ''a'')) (JStr (js ''c''))]))) = 2
   \<and> efrom (edges (showQueryGraph_payload example_env [node_a, node_b]
         (Some [edge_of (JStr (js ''a'')) (JStr (js ''b'')),
                edge_of (JStr (js ''a'')) (JStr (js ''a'')),
                edge_of (JStr (js ''a'')) (JStr (js ''c''))])) ! 0)
     \<noteq> eto (edges (showQueryGraph_payload example_env [node_a, node_b]
         (Some [edge_of (JStr (js ''a'')) (JStr (js ''b'')),
                edge_of (JStr (js ''a'')) (JStr (js ''a'')),
                edge_of (JStr (js ''a'')) (JStr (js ''c''))])) ! 0)
   \<and> efrom (edges (showQueryGraph_payload example_env [node_a, node_b]
         (Some [edge_of (JStr (js ''a'')) (JStr (js ''b'')),
                edge_of (JStr (js ''a'')) (JStr (js ''a'')),
                edge_of (JStr (js ''a'')) (JStr (js ''c''))])) ! 1)
     \<noteq> eto (edges (showQueryGraph_payload example_env [node_a, node_b]
         (Some [edge_of (JStr (js ''a'')) (JStr (js ''b'')),
                edge_of (JStr (js ''a'')) (JStr (js ''a'')),
                edge_of (JStr (js ''a'')) (JStr (js ''c''))])) ! 1)"
proof -
  let ?es = "[edge_of (JStr (js ''a'')) (JStr (js ''b'')),
              edge_of (JStr (js ''a'')) (JStr (js ''a'')),
              edge_of (JStr (js ''a'')) (JStr (js ''c''))]"
  let ?P = "showQueryGraph_payload example_env [node_a, node_b] (Some ?es)"
  have fresh: "\<forall>e \<in> set ?es. \<forall>x \<in> {efrom e, eto e}.
      x \<notin> nid ` set [node_a, node_b]
      \<longrightarrow> x \<notin> set (map nid (processedNodes example_env [node_a, node_b]))"
    unfolding example_processedNodes by (simp add: edge_of_def node_a_def node_b_def js_eval)
  have loop: "\<not> showQueryGraph_filter (edge_of (JStr (js ''a'')) (JStr (js ''a'')))"
    by (simp add: showQueryGraph_filter_iff edge_of_def)
  have len: "length (edges ?P) = 2"
    by (simp add: showQueryGraph_payload_eq map_edges_length showQueryGraph_filter_iff
        edges_or_empty_def edge_of_def js_eval)
  from self_loops_filtered [of ?es example_state "[node_a, node_b]" example_env] fresh
  have "\<forall>e' \<in> set (edges ?P). efrom e' \<noteq> eto e'"
    by blast
  moreover from len have "edges ?P ! 0 \<in> set (edges ?P)" and "edges ?P ! 1 \<in> set (edges ?P)"
    by simp_all
  ultimately have "efrom (edges ?P ! 0) \<noteq> eto (edges ?P ! 0)"
    and "efrom (edges ?P ! 1) \<noteq> eto (edges ?P ! 1)"
    by blast+
  with loop len show ?thesis by blast
qed

text \<open>
  C2 as stated fails: the self-loop test is made before the endpoints are mapped, and an
  endpoint that is the id of no node is passed on as it is.  An edge from node \<open>a\<close> to
  the text that is about to be generated as the render id of \<open>a\<close> is not a self-loop of
  the input, and is emitted with \<open>from = to\<close>.
\<close>

theorem self_loop_after_mapping_counterexample:
  "JStr (js ''a'') \<noteq> JStr (js ''node_0_1700000000000_0.5'')
   \<and> edges (showQueryGraph_payload example_env [node_a]
              (Some [edge_of (JStr (js ''a'')) (JStr (js ''node_0_1700000000000_0.5''))]))
     = [\<lparr>eid = JStr (js ''edge_0_1700000000000_0.7''),
         efrom = JStr (js ''node_0_1700000000000_0.5''),
         eto = JStr (js ''node_0_1700000000000_0.5''),
         elabel = JStr (js ''treats'')\<rparr>]"
  by (simp add: payload_eval example_env_def)

section \<open>The two payload builders agree\<close>

lemma payload_builders_agree:
  "fetchFullKG_payload env ns es = showQueryGraph_payload env ns es"
proof -
  have "filter fetchFullKG_filter xs = filter showQueryGraph_filter xs" for xs
    by (rule filter_cong) (simp_all add: fetchFullKG_filter_iff showQueryGraph_filter_iff)
  then show ?thesis
    by (simp add: fetchFullKG_payload_eq showQueryGraph_payload_eq)
qed

text \<open>
  C8.  \<open>fetchFullKG\<close> applies the rules of \<open>showQueryGraph\<close>: the two edge filters keep
  the same edges, the two builders produce the same payload from the same nodes, edges,
  clock and random numbers, and a successful fetch of a non-empty node list stores in
  \<open>currentGraphData\<close> what \<open>showQueryGraph\<close> stores for the same visualization data.
\<close>

theorem fetchFullKG_same_rules:
  "fetchFullKG_filter e = showQueryGraph_filter e
   \<and> fetchFullKG_payload env ns es = showQueryGraph_payload env ns es
   \<and> (ns \<noteq> [] \<longrightarrow>
        currentGraphData
          (fetchFullKG env API_URL
             (Responded True status \<lparr>fk_error = None, fk_nodes = Some ns, fk_edges = es\<rparr>) st)
        = currentGraphData
            (showQueryGraph env
               (Some \<lparr>entities = en, relationships = rl,
                      visualization = Some \<lparr>gnodes = Some ns, gedges = es, edges_length_positive = lp\<rparr>\<rparr>) st'))"
proof (intro conjI impI)
  show "fetchFullKG_filter e = showQueryGraph_filter e"
    by (simp add: fetchFullKG_filter_iff showQueryGraph_filter_iff)
  show "fetchFullKG_payload env ns es = showQueryGraph_payload env ns es"
    by (rule payload_builders_agree)
next
  assume "ns \<noteq> []"
  then show "currentGraphData
          (fetchFullKG env API_URL
             (Responded True status \<lparr>fk_error = None, fk_nodes = Some ns, fk_edges = es\<rparr>) st)
        = currentGraphData
            (showQueryGraph env
               (Some \<lparr>entities = en, relationships = rl,
                      visualization = Some \<lparr>gnodes = Some ns, gedges = es, edges_length_positive = lp\<rparr>\<rparr>) st')"
    by (simp add: fetchFullKG_def fetchFullKG_try_def truthy_text_def showQueryGraph_def
        add_message_def Let_def payload_builders_agree)
qed

theorem fetchFullKG_same_rules_witness:
  "fetchFullKG_filter (edge_of (JStr (js ''a'')) (JStr (js ''b'')))
   \<and> fetchFullKG_payload example_env [node_a, node_b] (Some [edge_of (JStr (js ''a'')) (JStr (js ''b''))])
     = \<lparr>nodes = [node_a\<lparr>nid := JStr (js ''node_0_1700000000000_0.5'')\<rparr>,
                 node_b\<lparr>nid := JStr (js ''node_1_1700000000000_0.7'')\<rparr>],
        edges = [\<lparr>eid = JStr (js ''edge_0_1700000000000_0.9''),
                  efrom = JStr (js ''node_0_1700000000000_0.5''),
                  eto = JStr (js ''node_1_1700000000000_0.7''),
                  elabel = JStr (js ''treats'')\<rparr>]\<rparr>
   \<and> currentGraphData
        (fetchFullKG example_env (js ''http://127.0.0.1:5000'')
           (Responded True 200
              \<lparr>fk_error = None, fk_nodes = Some [node_a, node_b],
               fk_edges = Some [edge_of (JStr (js ''a'')) (JStr (js ''b''))]\<rparr>) example_state)
     = currentGraphData
         (showQueryGraph example_env
            (Some \<lparr>entities = None, relationships = None,
                   visualization = Some \<lparr>gnodes = Some [node_a, node_b],
                                          gedges = Some [edge_of (JStr (js ''a'')) (JStr (js ''b''))],
                                          edges_length_positive = False\<rparr>\<rparr>)
            example_state)"
proof -
  have ne: "[node_a, node_b] \<noteq> []" by simp
  have f: "showQueryGraph_filter (edge_of (JStr (js ''a'')) (JStr (js ''b'')))"
    by (simp add: showQueryGraph_filter_iff edge_of_def js_eval)
  show ?thesis
    using fetchFullKG_same_rules [where e = "edge_of (JStr (js ''a'')) (JStr (js ''b''))"
        and env = example_env and ns = "[node_a, node_b]"
        and es = "Some [edge_of (JStr (js ''a'')) (JStr (js ''b''))]"
        and API_URL = "js ''http://127.0.0.1:5000''" and status = 200 and st = example_state
        and en = None and rl = None and lp = False and st' = example_state] ne f
    by (simp add: example_payload)
qed

section \<open>Render sizes\<close>

text \<open>
  C9.  The size of a render-node is a function of the group of the node alone, in the
  effect and in its earlier revision: 25 for the group \<open>herbs\<close>, 20 for every other
  group, so strictly larger for \<open>herbs\<close>, and equal for equal groups.
\<close>

theorem node_size_by_group:
  "map size (visNodes (fst (effect_build env cgd st)))
     = map (\<lambda>n. if ngroup n = JStr (js ''herbs'') then 25 else 20) (nodes cgd)
   \<and> map size (visNodes_v0 ns)
     = map (\<lambda>n. if ngroup n = JStr (js ''herbs'') then 25 else 20) ns
   \<and> (\<forall>i < length (nodes cgd). \<forall>j < length (nodes cgd).
         ngroup (nodes cgd ! i) = ngroup (nodes cgd ! j) \<longrightarrow>
           size (visNodes (fst (effect_build env cgd st)) ! i)
           = size (visNodes (fst (effect_build env cgd st)) ! j))
   \<and> (\<forall>i < length (nodes cgd). \<forall>j < length (nodes cgd).
         ngroup (nodes cgd ! i) = JStr (js ''herbs'') \<and> ngroup (nodes cgd ! j) \<noteq> JStr (js ''herbs'') \<longrightarrow>
           size (visNodes (fst (effect_build env cgd st)) ! j)
           < size (visNodes (fst (effect_build env cgd st)) ! i))"
proof -
  have sizes: "map size (visNodes (fst (effect_build env cgd st)))
     = map (\<lambda>n. if ngroup n = JStr (js ''herbs'') then 25 else 20) (nodes cgd)"
    by (simp add: effect_build_eq effect_map_nodes_sizes node_size_def)
  have len: "length (visNodes (fst (effect_build env cgd st))) = length (nodes cgd)"
    by (simp add: effect_build_eq effect_map_nodes_length)
  have nth: "size (visNodes (fst (effect_build env cgd st)) ! i)
             = (if ngroup (nodes cgd ! i) = JStr (js ''herbs'') then 25 else 20)"
    if "i < length (nodes cgd)" for i
  proof -
    from that len have "size (visNodes (fst (effect_build env cgd st)) ! i)
          = map size (visNodes (fst (effect_build env cgd st))) ! i" by simp
    also have "\<dots> = (if ngroup (nodes cgd ! i) = JStr (js ''herbs'') then 25 else 20)"
      unfolding sizes using that by simp
    finally show ?thesis .
  qed
  have v0: "map size (visNodes_v0 ns)
     = map (\<lambda>n. if ngroup n = JStr (js ''herbs'') then 25 else 20) ns"
    by (simp add: visNodes_v0_def size_extend node_size_def comp_def)
  from sizes v0 nth show ?thesis by simp
qed

theorem node_size_by_group_witness:
  "map size (visNodes (fst (effect_build example_env \<lparr>nodes = [node_a, node_b], edges = []\<rparr> example_state)))
     = [25, 20]
   \<and> map size (visNodes_v0 [node_a, node_b]) = [25, 20]
   \<and> ngroup node_a = JStr (js ''herbs'')
   \<and> ngroup node_b \<noteq> JStr (js ''herbs'')"
  using node_size_by_group [of example_env "\<lparr>nodes = [node_a, node_b], edges = []\<rparr>" example_state
      "[node_a, node_b]"]
  by (simp add: node_a_def node_b_def js_eval)

section \<open>Empty payloads\<close>

lemma fetchFullKG_no_nodes:
  "fetchFullKG_try env (Responded True status \<lparr>fk_error = None, fk_nodes = Some [], fk_edges = es\<rparr>)
     = Inl (js ''Received empty knowledge graph nodes'')"
  by (simp add: fetchFullKG_try_def truthy_text_def)

lemma fetchFullKG_nodes_without_edges:
  "ns \<noteq> [] \<Longrightarrow>
     fetchFullKG_try env (Responded True status \<lparr>fk_error = None, fk_nodes = Some ns, fk_edges = Some []\<rparr>)
       = Inr \<lparr>nodes = processedNodes env ns, edges = []\<rparr>"
  by (simp add: fetchFullKG_try_def truthy_text_def fetchFullKG_payload_eq edges_or_empty_def)

lemma graph_effect_no_nodes:
  "currentGraphData st = Some \<lparr>nodes = [], edges = es\<rparr> \<Longrightarrow> showGraph st \<Longrightarrow>
     snd (graph_effect env True vis st) = None
     \<and> showGraph (fst (graph_effect env True vis st)) = False
     \<and> mtype (last (messages (fst (graph_effect env True vis st)))) = js ''error''"
  by (simp add: graph_effect_def add_message_def bot_message_def)

lemma graph_effect_nodes_without_edges:
  assumes "currentGraphData st = Some \<lparr>nodes = ns, edges = []\<rparr>" "showGraph st" "ns \<noteq> []"
    and "vis \<lparr>visNodes = fst (effect_map_nodes env 0 ns Map.empty), visEdges = []\<rparr> = None"
  shows "graph_effect env True vis st
     = (st, Some \<lparr>visNodes = fst (effect_map_nodes env 0 ns Map.empty), visEdges = []\<rparr>)"
  using assms by (simp add: graph_effect_def effect_build_eq)

text \<open>
  In the current revision a payload without nodes is an error, in \<open>fetchFullKG\<close> and
  in the rendering effect, and a payload with nodes and no edge is accepted by both: the
  fetch stores the nodes-only payload and the effect hands it to the library without
  adding a message.
\<close>

theorem nodes_without_edges_accepted:
  "fetchFullKG_try env (Responded True status \<lparr>fk_error = None, fk_nodes = Some [], fk_edges = es\<rparr>)
     = Inl (js ''Received empty knowledge graph nodes'')
   \<and> (ns \<noteq> [] \<longrightarrow>
        fetchFullKG_try env (Responded True status \<lparr>fk_error = None, fk_nodes = Some ns, fk_edges = Some []\<rparr>)
          = Inr \<lparr>nodes = processedNodes env ns, edges = []\<rparr>
        \<and> length (processedNodes env ns) = length ns)
   \<and> (currentGraphData st = Some \<lparr>nodes = [], edges = es'\<rparr> \<and> showGraph st \<longrightarrow>
        snd (graph_effect env True vis st) = None
        \<and> showGraph (fst (graph_effect env True vis st)) = False
        \<and> mtype (last (messages (fst (graph_effect env True vis st)))) = js ''error'')
   \<and> (ns \<noteq> [] \<and> currentGraphData st = Some \<lparr>nodes = ns, edges = []\<rparr> \<and> showGraph st
        \<and> vis \<lparr>visNodes = fst (effect_map_nodes env 0 ns Map.empty), visEdges = []\<rparr> = None \<longrightarrow>
        graph_effect env True vis st
          = (st, Some \<lparr>visNodes = fst (effect_map_nodes env 0 ns Map.empty), visEdges = []\<rparr>))"
  using fetchFullKG_no_nodes [of env status es] fetchFullKG_nodes_without_edges [of ns env status]
    graph_effect_no_nodes [of st es' env vis] graph_effect_nodes_without_edges [of st ns vis env]
  by (simp add: processedNodes_def map_nodes_length)

theorem nodes_without_edges_accepted_witness:
  "fetchFullKG_try example_env
     (Responded True 200 \<lparr>fk_error = None, fk_nodes = Some [node_a, node_b], fk_edges = Some []\<rparr>)
     = Inr \<lparr>nodes = processedNodes example_env [node_a, node_b], edges = []\<rparr>
   \<and> length (processedNodes example_env [node_a, node_b]) = 2
   \<and> fetchFullKG_try example_env
     (Responded True 200 \<lparr>fk_error = None, fk_nodes = Some [], fk_edges = Some []\<rparr>)
     = Inl (js ''Received empty knowledge graph nodes'')"
  using nodes_without_edges_accepted [of example_env 200 "Some []" "[node_a, node_b]" example_state "[]" "\<lambda>p. None"]
  by simp

text \<open>
  C4.  A payload with two nodes and no edge.  \<open>fetchFullKG\<close> accepts it and builds the
  nodes-only payload, and the rendering effect hands the two nodes to the library without
  adding a message.  The earlier revision of \<open>fetchFullKG\<close> and of the effect reject the
  same payload with the error they give for a payload without nodes.
\<close>

theorem fetchFullKG_v0_rejects_nodes_without_edges:
  "fetchFullKG_try example_env
     (Responded True 200 \<lparr>fk_error = None, fk_nodes = Some [node_a, node_b], fk_edges = Some []\<rparr>)
     = Inr \<lparr>nodes = [node_a\<lparr>nid := JStr (js ''node_0_1700000000000_0.5'')\<rparr>,
                  node_b\<lparr>nid := JStr (js ''node_1_1700000000000_0.7'')\<rparr>],
            edges = []\<rparr>
   \<and> fetchFullKG_v0_try example_response_v0 = Inl (js ''Received empty knowledge graph data'')
   \<and> graph_effect_v0_check [node_a, node_b] []
     = Inl (bot_message (warning_sign @ js ''No data available for the knowledge graph. Please try another query or check the server logs.'')
              (js ''error''))"
  by (simp add: fetchFullKG_try_def fetchFullKG_v0_try_def example_response_v0_def truthy_text_def
      graph_effect_v0_check_def payload_eval example_env_def)

section \<open>All edges filtered out\<close>

lemma warning_is_not_error: "js ''warning'' \<noteq> js ''error''"
  by (simp add: js_eval)

lemma warning_types:
  "mtype no_valid_edges_warning = js ''warning''" "mtype (self_loop_warning x) = js ''warning''"
  by (simp_all add: no_valid_edges_warning_def self_loop_warning_def bot_message_def)

lemma showQueryGraph_without_edges:
  "ns \<noteq> [] \<Longrightarrow>
     showQueryGraph env
       (Some \<lparr>entities = en, relationships = rl,
              visualization = Some \<lparr>gnodes = Some ns, gedges = Some [], edges_length_positive = lp\<rparr>\<rparr>) st
     = st\<lparr>currentGraphData := Some \<lparr>nodes = processedNodes env ns, edges = []\<rparr>,
           graphType := Some (js ''query''),
           showGraph := True\<rparr>"
  by (simp add: showQueryGraph_def showQueryGraph_payload_eq edges_or_empty_def Let_def)

text \<open>
  An \<open>edges\<close> field that is not an array gives no edge; the warning then depends on
  \<open>edges?.length > 0\<close> of the field as it arrived.
\<close>

lemma showQueryGraph_edges_not_array:
  "ns \<noteq> [] \<Longrightarrow>
     showQueryGraph env
       (Some \<lparr>entities = en, relationships = rl,
              visualization = Some \<lparr>gnodes = Some ns, gedges = None, edges_length_positive = lp\<rparr>\<rparr>) st
     = (if lp then add_message no_valid_edges_warning st else st)
         \<lparr>currentGraphData := Some \<lparr>nodes = processedNodes env ns, edges = []\<rparr>,
          graphType := Some (js ''query''),
          showGraph := True\<rparr>"
  by (simp add: showQueryGraph_def showQueryGraph_payload_eq edges_or_empty_def Let_def)

text \<open>
  C7.  When edges are given and none survives the filter while there are nodes, payload
  construction goes on.  (With no edge given there is nothing to filter, and the graph is
  shown without any message: \<open>showQueryGraph_without_edges\<close>.)  \<open>showQueryGraph\<close> adds one message of type \<open>warning\<close> and shows
  the graph with all its nodes and no edge.  The rendering effect adds a warning for
  every self-loop, then the same warning, hands the nodes with no edge to the library,
  and leaves the graph shown when the library does not throw.  No message of type
  \<open>error\<close> is added.
\<close>

theorem all_edges_filtered_is_warning:
  assumes "ns \<noteq> []" and "es \<noteq> []"
    and "\<forall>e \<in> set es. \<not> (truthy (efrom e) \<and> truthy (eto e) \<and> efrom e \<noteq> eto e)"
  shows "showQueryGraph env
           (Some \<lparr>entities = en, relationships = rl,
                  visualization = Some \<lparr>gnodes = Some ns, gedges = Some es, edges_length_positive = lp\<rparr>\<rparr>) st
         = st\<lparr>messages := messages st @ [no_valid_edges_warning],
               currentGraphData := Some \<lparr>nodes = processedNodes env ns, edges = []\<rparr>,
               graphType := Some (js ''query''),
               showGraph := True\<rparr>
       \<and> length (processedNodes env ns) = length ns
       \<and> mtype no_valid_edges_warning = js ''warning''
       \<and> js ''warning'' \<noteq> js ''error''
       \<and> (currentGraphData st = Some \<lparr>nodes = ns, edges = es\<rparr> \<and> showGraph st \<longrightarrow>
            snd (graph_effect env True vis st)
              = Some \<lparr>visNodes = fst (effect_map_nodes env 0 ns Map.empty), visEdges = []\<rparr>
            \<and> length (fst (effect_map_nodes env 0 ns Map.empty)) = length ns
            \<and> (vis \<lparr>visNodes = fst (effect_map_nodes env 0 ns Map.empty), visEdges = []\<rparr> = None \<longrightarrow>
                 fst (graph_effect env True vis st)
                 = st\<lparr>messages := messages st
                        @ map (\<lambda>e. self_loop_warning (efrom e))
                            (filter (\<lambda>e. truthy (efrom e) \<and> truthy (eto e) \<and> efrom e = eto e) es)
                        @ [no_valid_edges_warning]\<rparr>))
       \<and> (\<forall>x. mtype (self_loop_warning x) = js ''warning'')"
proof -
  have none: "filter (\<lambda>e. truthy (efrom e) \<and> truthy (eto e) \<and> efrom e \<noteq> eto e) es = []"
    using assms(3) by (simp add: filter_empty_conv)
  have sq: "filter showQueryGraph_filter es = []"
    using assms(3) by (simp add: filter_empty_conv showQueryGraph_filter_iff)
  have show_part: "showQueryGraph env
           (Some \<lparr>entities = en, relationships = rl,
                  visualization = Some \<lparr>gnodes = Some ns, gedges = Some es, edges_length_positive = lp\<rparr>\<rparr>) st
         = st\<lparr>messages := messages st @ [no_valid_edges_warning],
               currentGraphData := Some \<lparr>nodes = processedNodes env ns, edges = []\<rparr>,
               graphType := Some (js ''query''),
               showGraph := True\<rparr>"
    using assms(1,2)
    by (simp add: showQueryGraph_def showQueryGraph_payload_eq edges_or_empty_def sq Let_def
        add_message_def)
  have len: "length (processedNodes env ns) = length ns"
    by (simp add: processedNodes_def map_nodes_length)
  have effect_part: "snd (graph_effect env True vis st)
              = Some \<lparr>visNodes = fst (effect_map_nodes env 0 ns Map.empty), visEdges = []\<rparr>
            \<and> length (fst (effect_map_nodes env 0 ns Map.empty)) = length ns
            \<and> (vis \<lparr>visNodes = fst (effect_map_nodes env 0 ns Map.empty), visEdges = []\<rparr> = None \<longrightarrow>
                 fst (graph_effect env True vis st)
                 = st\<lparr>messages := messages st
                        @ map (\<lambda>e. self_loop_warning (efrom e))
                            (filter (\<lambda>e. truthy (efrom e) \<and> truthy (eto e) \<and> efrom e = eto e) es)
                        @ [no_valid_edges_warning]\<rparr>)"
    if "currentGraphData st = Some \<lparr>nodes = ns, edges = es\<rparr> \<and> showGraph st"
    using that assms(1,2)
    by (auto simp add: graph_effect_def effect_build_eq effect_filter_fst effect_filter_snd none
        add_message_def effect_map_nodes_length split: option.splits)
  from show_part len effect_part show ?thesis
    by (simp add: warning_types warning_is_not_error)
qed

theorem all_edges_filtered_is_warning_witness:
  "messages (showQueryGraph example_env
       (Some \<lparr>entities = None, relationships = None,
              visualization = Some \<lparr>gnodes = Some [node_a, node_b], gedges = Some example_bad_edges,
                                      edges_length_positive = False\<rparr>\<rparr>)
       example_state)
     = [no_valid_edges_warning]
   \<and> showGraph (showQueryGraph example_env
       (Some \<lparr>entities = None, relationships = None,
              visualization = Some \<lparr>gnodes = Some [node_a, node_b], gedges = Some example_bad_edges,
                                      edges_length_positive = False\<rparr>\<rparr>)
       example_state)
   \<and> currentGraphData (showQueryGraph example_env
       (Some \<lparr>entities = None, relationships = None,
              visualization = Some \<lparr>gnodes = Some [node_a, node_b], gedges = Some example_bad_edges,
                                      edges_length_positive = False\<rparr>\<rparr>)
       example_state)
     = Some \<lparr>nodes = processedNodes example_env [node_a, node_b], edges = []\<rparr>
   \<and> messages (fst (graph_effect example_env True (\<lambda>p. None) example_shown_state))
     = [self_loop_warning (JStr (js ''a'')), no_valid_edges_warning]
   \<and> showGraph (fst (graph_effect example_env True (\<lambda>p. None) example_shown_state))
   \<and> snd (graph_effect example_env True (\<lambda>p. None) example_shown_state)
     = Some \<lparr>visNodes = fst (effect_map_nodes example_env 0 [node_a, node_b] Map.empty), visEdges = []\<rparr>"
proof -
  have ne: "[node_a, node_b] \<noteq> []" "example_bad_edges \<noteq> []"
    by (simp_all add: example_bad_edges_def)
  have bad: "\<forall>e \<in> set example_bad_edges. \<not> (truthy (efrom e) \<and> truthy (eto e) \<and> efrom e \<noteq> eto e)"
    by (simp add: example_bad_edges_def edge_of_def)
  have loops: "map (\<lambda>e. self_loop_warning (efrom e))
                 (filter (\<lambda>e. truthy (efrom e) \<and> truthy (eto e) \<and> efrom e = eto e) example_bad_edges)
               = [self_loop_warning (JStr (js ''a''))]"
    by (simp add: example_bad_edges_def edge_of_def js_eval)
  have shown: "currentGraphData example_shown_state
                 = Some \<lparr>nodes = [node_a, node_b], edges = example_bad_edges\<rparr>"
    "showGraph example_shown_state" "messages example_shown_state = []"
    by (simp_all add: example_shown_state_def example_state_def)
  from all_edges_filtered_is_warning [OF ne bad, where env = example_env and en = None and rl = None
      and st = example_state and vis = "\<lambda>p. None" and lp = False]
  have 1: "showQueryGraph example_env
       (Some \<lparr>entities = None, relationships = None,
              visualization = Some \<lparr>gnodes = Some [node_a, node_b], gedges = Some example_bad_edges,
                                      edges_length_positive = False\<rparr>\<rparr>)
       example_state
     = example_state\<lparr>messages := messages example_state @ [no_valid_edges_warning],
          currentGraphData := Some \<lparr>nodes = processedNodes example_env [node_a, node_b], edges = []\<rparr>,
          graphType := Some (js ''query''), showGraph := True\<rparr>"
    by (elim conjE)
  from all_edges_filtered_is_warning [OF ne bad, where env = example_env and en = None and rl = None
      and st = example_shown_state and vis = "\<lambda>p. None" and lp = False] shown
  have 2: "snd (graph_effect example_env True (\<lambda>p. None) example_shown_state)
              = Some \<lparr>visNodes = fst (effect_map_nodes example_env 0 [node_a, node_b] Map.empty), visEdges = []\<rparr>"
    and 3: "fst (graph_effect example_env True (\<lambda>p. None) example_shown_state)
              = example_shown_state\<lparr>messages := messages example_shown_state
                        @ map (\<lambda>e. self_loop_warning (efrom e))
                            (filter (\<lambda>e. truthy (efrom e) \<and> truthy (eto e) \<and> efrom e = eto e) example_bad_edges)
                        @ [no_valid_edges_warning]\<rparr>"
    by simp_all
  show ?thesis
    unfolding 1 2 3 loops by (simp add: shown example_state_def)
qed

section \<open>The formatted answer\<close>

lemma foldl_append_lines: "foldl (\<lambda>acc x. acc @ f x) a xs = a @ concat (map f xs)"
  by (induction xs arbitrary: a) simp_all

lemma relationship_line_appends: "\<exists>t. relationship_line r entry = r @ t"
  by (simp add: relationship_line_def split: option.splits)

lemma foldl_relationship_line_appends: "\<exists>t. foldl relationship_line r entries = r @ t"
proof (induction entries arbitrary: r)
  case Nil
  then show ?case by simp
next
  case (Cons entry entries)
  from relationship_line_appends [of r entry] obtain t where t: "relationship_line r entry = r @ t"
    by blast
  from Cons.IH [of "r @ t"] obtain u where "foldl relationship_line (r @ t) entries = (r @ t) @ u"
    by blast
  with t have "foldl relationship_line r (entry # entries) = r @ (t @ u)" by simp
  then show ?case by blast
qed

lemma kg_sources_appends: "\<exists>rest. kg_sources kg r = r @ sources_heading @ rest"
proof -
  let ?r1 = "r @ sources_heading"
  let ?r2 = "if has_entities kg then
               foldl (\<lambda>acc entity. acc @ entity_line entity) (?r1 @ [10] @ js ''Entities Found:'')
                 (take 5 (case entities kg of Some es \<Rightarrow> es | None \<Rightarrow> []))
             else ?r1"
  have "\<exists>t. ?r2 = ?r1 @ t"
    by (simp add: foldl_append_lines)
  then obtain t where t: "?r2 = ?r1 @ t" by blast
  have "\<exists>u. (if has_relationships kg then
                foldl relationship_line (?r2 @ [10] @ js ''Relationships:'')
                  (case relationships kg of Some rs \<Rightarrow> rs | None \<Rightarrow> [])
              else ?r2) = ?r2 @ u"
  proof (cases "has_relationships kg")
    case True
    from foldl_relationship_line_appends
      [of "?r2 @ [10] @ js ''Relationships:''" "case relationships kg of Some rs \<Rightarrow> rs | None \<Rightarrow> []"]
    obtain v where "foldl relationship_line (?r2 @ [10] @ js ''Relationships:'')
                  (case relationships kg of Some rs \<Rightarrow> rs | None \<Rightarrow> [])
                = (?r2 @ [10] @ js ''Relationships:'') @ v" by blast
    with True show ?thesis by simp
  next
    case False
    then show ?thesis by simp
  qed
  then obtain u where u: "(if has_relationships kg then
                foldl relationship_line (?r2 @ [10] @ js ''Relationships:'')
                  (case relationships kg of Some rs \<Rightarrow> rs | None \<Rightarrow> [])
              else ?r2) = ?r2 @ u" by blast
  have "kg_sources kg r = ?r2 @ u"
    unfolding kg_sources_def Let_def using u by simp
  with t have "kg_sources kg r = r @ sources_heading @ (t @ u)" by simp
  then show ?thesis by blast
qed


lemma present_iff: "present s \<longleftrightarrow> (\<exists>t. s = Some t \<and> t \<noteq> [])"
  by (auto simp add: present_def truthy_text_def split: option.splits)

lemma formatResults_without_error:
  "\<not> present (error data) \<Longrightarrow>
     formatResults data =
       (let responseText = processResponseText (or_text (response data) (js ''No response available.''))
        in case kg_data data of
             None \<Rightarrow> responseText
           | Some kg \<Rightarrow> if has_entities kg \<or> has_relationships kg then kg_sources kg responseText
                       else responseText)"
  by (simp add: formatResults_def)




lemma example_answer_plain: "processResponseText (js ''Tulsi may help.'') = js ''Tulsi may help.''"
  by (rule processResponseText_without_asterisk) (simp add: js_eval)



section \<open>Errors\<close>

text \<open>
  C6.  A response with a truthy \<open>error\<close>: \<open>formatResults\<close> returns the error text, with
  \<open>detail\<close> in place of \<open>error\<close> when \<open>detail\<close> is given, and nothing of it depends on
  \<open>response\<close>; \<open>send\<close> throws on such a response before the answer is formatted and
  shows the error in its connection message, again whatever \<open>response\<close> holds.  A response
  without a truthy \<open>error\<close>: the formatted text starts with the processed \<open>response\<close> and
  does not depend on \<open>detail\<close>.
\<close>

theorem error_and_response_exclusive:
  "(present (error data) \<longrightarrow>
      formatResults data
        = [10060] @ js '' Query Error'' @ [10, 10]
          @ or_text (detail data) (or_text (error data) [])
          @ [10, 10] @ js ''Try rephrasing your question or ask about specific herbs like turmeric, ashwagandha, or neem.''
      \<and> formatResults (data\<lparr>response := r\<rparr>) = formatResults data
      \<and> send_try type_error (Responded True status data) = Inl (or_text (error data) [])
      \<and> send_try type_error (Responded True status (data\<lparr>response := r\<rparr>))
          = send_try type_error (Responded True status data)
      \<and> (trim (input st) \<noteq> [] \<and> \<not> loading st \<longrightarrow>
            messages (send API_URL type_error (Responded True status data) st)
            = messages st
              @ [\<lparr>mfrom = js ''user'', mtext = trim (input st), mtype = js ''user'', mkg_data = None\<rparr>,
                 connection_issue API_URL (or_text (error data) [])]))
   \<and> (\<not> present (error data) \<longrightarrow>
        (\<exists>rest. formatResults data
                 = processResponseText (or_text (response data) (js ''No response available.'')) @ rest)
        \<and> formatResults (data\<lparr>detail := d\<rparr>) = formatResults data)"
proof (intro conjI impI)
  assume p: "present (error data)"
  then obtain m where m: "truthy_text (error data) = Some m"
    by (auto simp add: present_def)
  then have o: "or_text (error data) [] = m"
    by (simp add: or_text_def)
  from p show "formatResults data
        = [10060] @ js '' Query Error'' @ [10, 10]
          @ or_text (detail data) (or_text (error data) [])
          @ [10, 10] @ js ''Try rephrasing your question or ask about specific herbs like turmeric, ashwagandha, or neem.''"
    by (simp add: formatResults_def)
  from p show "formatResults (data\<lparr>response := r\<rparr>) = formatResults data"
    by (simp add: formatResults_def)
  from m show t: "send_try type_error (Responded True status data) = Inl (or_text (error data) [])"
    by (simp add: send_try_def o)
  from m show "send_try type_error (Responded True status (data\<lparr>response := r\<rparr>))
          = send_try type_error (Responded True status data)"
    by (simp add: send_try_def)
  assume "trim (input st) \<noteq> [] \<and> \<not> loading st"
  then show "messages (send API_URL type_error (Responded True status data) st)
            = messages st
              @ [\<lparr>mfrom = js ''user'', mtext = trim (input st), mtype = js ''user'', mkg_data = None\<rparr>,
                 connection_issue API_URL (or_text (error data) [])]"
    by (simp add: send_def t Let_def add_message_def)
next
  assume n: "\<not> present (error data)"
  show "\<exists>rest. formatResults data
                 = processResponseText (or_text (response data) (js ''No response available.'')) @ rest"
  proof (cases "kg_data data")
    case None
    with n show ?thesis by (simp add: formatResults_without_error Let_def)
  next
    case (Some kg)
    from kg_sources_appends [of kg "processResponseText (or_text (response data) (js ''No response available.''))"]
    obtain rest where "kg_sources kg (processResponseText (or_text (response data) (js ''No response available.'')))
        = processResponseText (or_text (response data) (js ''No response available.'')) @ sources_heading @ rest"
      by blast
    with n Some show ?thesis by (simp add: formatResults_without_error Let_def)
  qed
  from n show "formatResults (data\<lparr>detail := d\<rparr>) = formatResults data"
    by (simp add: formatResults_def)
qed

theorem error_and_response_exclusive_witness:
  "present (error example_error_response)
   \<and> formatResults example_error_response
     = [10060] @ js '' Query Error'' @ [10, 10] @ js ''query is empty''
       @ [10, 10] @ js ''Try rephrasing your question or ask about specific herbs like turmeric, ashwagandha, or neem.''
   \<and> send_try [] (Responded True 200 example_error_response) = Inl (js ''Bad query'')
   \<and> (\<exists>rest. formatResults example_high_without_kg = js ''Tulsi may help.'' @ rest)"
proof -
  have p: "present (error example_error_response)"
    and n: "\<not> present (error example_high_without_kg)"
    by (simp_all add: example_error_response_def example_high_without_kg_def present_def
        truthy_text_def js_eval)
  have texts: "or_text (detail example_error_response) (or_text (error example_error_response) [])
                 = js ''query is empty''"
    "or_text (error example_error_response) [] = js ''Bad query''"
    "or_text (detail example_error_response) (js ''Bad query'') = js ''query is empty''"
    "or_text (response example_high_without_kg) (js ''No response available.'') = js ''Tulsi may help.''"
    by (simp_all add: example_error_response_def example_high_without_kg_def or_text_def
        truthy_text_def js_eval)
  from error_and_response_exclusive [where data = example_error_response and r = None
      and type_error = "[]" and status = 200 and st = example_state and API_URL = "[]" and d = None] p
  have 1: "formatResults example_error_response
        = [10060] @ js '' Query Error'' @ [10, 10]
          @ or_text (detail example_error_response) (or_text (error example_error_response) [])
          @ [10, 10] @ js ''Try rephrasing your question or ask about specific herbs like turmeric, ashwagandha, or neem.''"
    and 2: "send_try [] (Responded True 200 example_error_response)
          = Inl (or_text (error example_error_response) [])"
    by blast+
  from error_and_response_exclusive [where data = example_high_without_kg and r = None
      and type_error = "[]" and status = 200 and st = example_state and API_URL = "[]" and d = None] n
  have 3: "\<exists>rest. formatResults example_high_without_kg
        = processResponseText (or_text (response example_high_without_kg) (js ''No response available.'')) @ rest"
    by blast
  from p 1 2 3 show ?thesis
    unfolding texts example_answer_plain by blast
qed

end
